theory Spec2Isabelle
  imports Complex_Main
begin

section \<open>Signal evaluation pipeline of the trade bot\<close>

text \<open>
  The development follows \<^verbatim>\<open>V.0.0.1/netlify/functions/trade-bot.js\<close>, the Binance
  variant of the bot, function by function. Three further variants of the same file are
  embedded where they differ in a way that matters below: the CoinAPI variant whose
  intrabar evaluation has its cooldown gate and its dedupe claim commented out and
  does not read the liquidation veto; the
  CoinGecko variant \<^verbatim>\<open>trade-bot.mjs\<close>, which hashes signal ids, compares momentum
  scores with \<^verbatim>\<open>!==\<close> and rounds prices to decimals, with its close evaluation; and
  the funding annotation of the variant that combines CoinAPI and CoinGecko.

  Conventions of the embedding.
  \<^item> JavaScript numbers that hold prices, rates and indicator values are reals; numbers
    that hold millisecond timestamps, scores and confidences are integers (the code only
    ever adds and compares integers there). \<^verbatim>\<open>NaN\<close> and infinities are not values of
    the model; where the code itself asks \<^verbatim>\<open>Number.isFinite\<close> or \<^verbatim>\<open>!= null\<close> the
    value is an \<open>option\<close>.
  \<^item> String tags (\<^verbatim>\<open>"LONG"\<close>, \<^verbatim>\<open>"UP"\<close>, \<^verbatim>\<open>"STRONG"\<close>, ...) are datatypes;
    ids, reasons and warnings are strings.
  \<^item> The indicator library \<^verbatim>\<open>technicalindicators\<close> is not part of the repository:
    its four \<^verbatim>\<open>calculate\<close> functions are a parameter of the model.
  \<^item> The Redis store is explicit state: every key carries its expiry time, and a key
    is visible while the clock is before it.
  \<^item> Each evaluation takes one clock reading \<open>now\<close> for all its \<^verbatim>\<open>nowMs()\<close> calls,
    and the values fetched over HTTP (candles, ticker, premium index) as arguments.
    Rejected promises of the HTTP client and the Redis client are outside the model.
\<close>

subsection \<open>Tags and configuration\<close>

datatype trend = UP | DOWN | SIDE

datatype mom_strength = WEAK | MED | STRONG

datatype bb_width = BBW_low | BBW_mid | BBW_high

datatype dir = LONG | SHORT | LONG_CANDIDATE | SHORT_CANDIDATE | NO_TRADE | NONE

datatype mode = PREVIEW | CONFIRMED | INVALIDATED

definition MIN_CONF_SHOW :: int where "MIN_CONF_SHOW = 60"
definition MIN_CONF_CONFIRMED :: int where "MIN_CONF_CONFIRMED = 60"
definition COOLDOWN_CONFIRMED_MIN :: int where "COOLDOWN_CONFIRMED_MIN = 30"
definition COOLDOWN_INVALIDATED_MIN :: int where "COOLDOWN_INVALIDATED_MIN = 15"
definition ATR_PERIOD :: nat where "ATR_PERIOD = 14"
definition SL_ATR_MULT_LOW :: real where "SL_ATR_MULT_LOW = 2.0"
definition SL_ATR_MULT_HIGH :: real where "SL_ATR_MULT_HIGH = 3.0"
definition RR_BASE :: real where "RR_BASE = 1.5"
definition RR_HIGH :: real where "RR_HIGH = 2.0"
definition MIN_SL_BPS :: real where "MIN_SL_BPS = 10"
definition MIN_TP_BPS :: real where "MIN_TP_BPS = 15"
definition LIQ_THR_HIGH :: real where "LIQ_THR_HIGH = 8"
definition LIQ_THR_MED :: real where "LIQ_THR_MED = 6"
definition LIQ_THR_LOW :: real where "LIQ_THR_LOW = 4"
definition LIQ_PENALTY_HIGH :: int where "LIQ_PENALTY_HIGH = 10"
definition LIQ_PENALTY_MED :: int where "LIQ_PENALTY_MED = 7"
definition LIQ_PENALTY_LOW :: int where "LIQ_PENALTY_LOW = 4"
definition LIQ_BONUS_ALIGN :: int where "LIQ_BONUS_ALIGN = 5"
definition FUNDING_WARN_MINUTES :: int where "FUNDING_WARN_MINUTES = 30"
definition FUNDING_RATE_ABS_WARN :: real where "FUNDING_RATE_ABS_WARN = 0.0002"
definition TTL_COOLDOWN_SEC :: int where "TTL_COOLDOWN_SEC = 6 * 3600"
definition TTL_PENDING_SEC :: int where "TTL_PENDING_SEC = 2 * 3600"
definition TTL_LASTSIG_SEC :: int where "TTL_LASTSIG_SEC = 6 * 3600"
definition DEDUPE_TTL_SECONDS :: int where "DEDUPE_TTL_SECONDS = 120"
definition DEDUPE_SCOPE_SECONDS :: int where "DEDUPE_SCOPE_SECONDS = 120"
definition TREND_UP_PCT :: real where "TREND_UP_PCT = 2.0"
definition TREND_DN_PCT :: real where "TREND_DN_PCT = - 2.0"

lemmas CONFIG_defs =
  MIN_CONF_SHOW_def MIN_CONF_CONFIRMED_def COOLDOWN_CONFIRMED_MIN_def
  COOLDOWN_INVALIDATED_MIN_def ATR_PERIOD_def SL_ATR_MULT_LOW_def SL_ATR_MULT_HIGH_def
  RR_BASE_def RR_HIGH_def MIN_SL_BPS_def MIN_TP_BPS_def LIQ_THR_HIGH_def LIQ_THR_MED_def
  LIQ_THR_LOW_def LIQ_PENALTY_HIGH_def LIQ_PENALTY_MED_def LIQ_PENALTY_LOW_def
  LIQ_BONUS_ALIGN_def FUNDING_WARN_MINUTES_def FUNDING_RATE_ABS_WARN_def
  TTL_COOLDOWN_SEC_def TTL_PENDING_SEC_def TTL_LASTSIG_SEC_def DEDUPE_TTL_SECONDS_def
  DEDUPE_SCOPE_SECONDS_def TREND_UP_PCT_def TREND_DN_PCT_def

subsection \<open>Small helpers\<close>

definition floorTimeBucket :: "int \<Rightarrow> int \<Rightarrow> int" where
  "floorTimeBucket ms bucketSec = (let b = bucketSec * 1000 in (ms div b) * b)"

definition clamp :: "int \<Rightarrow> int \<Rightarrow> int \<Rightarrow> int" where
  "clamp x a b = max a (min b x)"

text \<open>\<^verbatim>\<open>minutesTo\<close> reads the clock; the reading is the second argument.\<close>

definition minutesTo :: "int \<Rightarrow> int \<Rightarrow> int" where
  "minutesTo tsMs now = (tsMs - now) div 60000"

definition bpsToDist :: "real \<Rightarrow> real \<Rightarrow> real" where
  "bpsToDist price bps = price * (bps / 10000)"

subsection \<open>Candles and indicators\<close>

text \<open>One row of the klines answer: fields 1 to 6 of the array the exchange returns.\<close>

record krow =
  k_open :: real
  k_high :: real
  k_low :: real
  k_close :: real
  k_volume :: real
  k_closeTime :: int

record candles =
  c_open :: "real list"
  c_high :: "real list"
  c_low :: "real list"
  c_close :: "real list"
  c_volume :: "real list"
  c_closeTime :: "int list"

definition parseCandleRows :: "krow list \<Rightarrow> candles" where
  "parseCandleRows rows =
     \<lparr> c_open = map k_open rows, c_high = map k_high rows, c_low = map k_low rows,
       c_close = map k_close rows, c_volume = map k_volume rows,
       c_closeTime = map k_closeTime rows \<rparr>"

record macd_out =
  histogram :: "real option"

record bb_out =
  upper :: real
  middle :: real
  lower :: real

text \<open>
  The indicator library, with the fixed periods of the calls folded in:
  \<^verbatim>\<open>RSI.calculate({values, period: 14})\<close>, \<^verbatim>\<open>MACD.calculate({values, 12, 26, 9})\<close>,
  \<^verbatim>\<open>BollingerBands.calculate({period: 20, values, stdDev: 2})\<close> and
  \<^verbatim>\<open>ATR.calculate({high, low, close, period: 14})\<close>.
\<close>

record indicator_lib =
  RSI_calculate :: "real list \<Rightarrow> real list"
  MACD_calculate :: "real list \<Rightarrow> macd_out list"
  BollingerBands_calculate :: "real list \<Rightarrow> bb_out list"
  ATR_calculate :: "real list \<Rightarrow> real list \<Rightarrow> real list \<Rightarrow> real list"

record indicators =
  rsi :: "real option"
  macd :: "macd_out option"
  bb :: "bb_out option"
  bbWidthClass :: bb_width
  bbPos :: int
  atr :: "real option"
  volumeRatio :: real
  lastClose :: "real option"
  lastCandleCloseTime :: "int option"

text \<open>\<^verbatim>\<open>arr.length ? arr[arr.length - 1] : null\<close>, and \<^verbatim>\<open>arr[arr.length - 1]\<close> alone,
  which is \<^verbatim>\<open>undefined\<close> on an empty array.\<close>

definition lastOrNull :: "'a list \<Rightarrow> 'a option" where
  "lastOrNull xs = (if xs = [] then None else Some (last xs))"

definition computeIndicatorsFromCandles :: "indicator_lib \<Rightarrow> candles \<Rightarrow> indicators" where
  "computeIndicatorsFromCandles lib c =
     (let closes = c_close c; highs = c_high c; lows = c_low c; vols = c_volume c;
          rsi' = lastOrNull (RSI_calculate lib closes);
          macd' = lastOrNull (MACD_calculate lib closes);
          bb' = lastOrNull (BollingerBands_calculate lib closes);
          atr' = lastOrNull (ATR_calculate lib highs lows closes);
          lookback = 20;
          avgVol = (if length vols \<ge> lookback
                    then sum_list (drop (length vols - lookback) vols) / real lookback
                    else sum_list vols / real (max 1 (length vols)));
          volumeRatio' = (if avgVol > 0 then last vols / avgVol else 1);
          lastClose' = lastOrNull closes;
          widthAndPos =
            (case bb' of
               None \<Rightarrow> (BBW_mid, 0)
             | Some b \<Rightarrow>
                 if middle b \<noteq> 0 \<and> upper b \<noteq> 0 \<and> lower b \<noteq> 0 then
                   (let widthPct = (upper b - lower b) / middle b
                    in (if widthPct \<ge> 0.04 then BBW_high
                        else if widthPct \<le> 0.02 then BBW_low else BBW_mid,
                        case lastClose' of
                          None \<Rightarrow> 0
                        | Some lc \<Rightarrow> if lc > middle b then 1
                                     else if lc < middle b then - 1 else 0))
                 else (BBW_mid, 0))
      in \<lparr> rsi = rsi', macd = macd', bb = bb', bbWidthClass = fst widthAndPos,
           bbPos = snd widthAndPos, atr = atr', volumeRatio = volumeRatio',
           lastClose = lastClose', lastCandleCloseTime = lastOrNull (c_closeTime c) \<rparr>)"

subsection \<open>Market classifier and direction selector\<close>

text \<open>The 24h ticker after \<^verbatim>\<open>Number(...)\<close>; \<open>lastPrice\<close> is the first truthy one of
  \<^verbatim>\<open>lastPrice\<close>, \<^verbatim>\<open>last\<close>, \<^verbatim>\<open>closePrice\<close>, \<^verbatim>\<open>price\<close>.\<close>

record ticker24 =
  priceChangePercent :: real
  highPrice :: real
  lowPrice :: real
  lastPrice :: real

definition classifyTrend :: "ticker24 \<Rightarrow> indicators \<Rightarrow> trend" where
  "classifyTrend t ind =
     (let chg = priceChangePercent t;
          base = (if chg > TREND_UP_PCT then UP else if chg < TREND_DN_PCT then DOWN else SIDE);
          s0 = (0::int);
          s1 = (if base = UP then s0 + 2 else s0);
          s2 = (if base = DOWN then s1 - 2 else s1);
          s3 = (case macd ind of
                  None \<Rightarrow> s2
                | Some m \<Rightarrow>
                    (case histogram m of
                       None \<Rightarrow> s2
                     | Some h \<Rightarrow>
                         (let a = (if h > 0 then s2 + 1 else s2)
                          in if h < 0 then a - 1 else a)));
          score = s3 + bbPos ind
      in if score \<ge> 2 then UP else if score \<le> - 2 then DOWN else SIDE)"

record momentum =
  score :: int
  strength :: mom_strength

definition computeMomentum :: "indicators \<Rightarrow> momentum" where
  "computeMomentum ind =
     (let vr = volumeRatio ind; bbw = bbWidthClass ind;
          s0 = (0::int);
          s1 = (case rsi ind of
                  None \<Rightarrow> s0
                | Some r \<Rightarrow> if r \<ge> 60 then s0 + 2 else if r \<ge> 52 then s0 + 1
                            else if r \<le> 40 then s0 - 2 else if r \<le> 48 then s0 - 1 else s0);
          s2 = (if vr \<ge> 1.5 then s1 + 2 else if vr \<ge> 1.1 then s1 + 1
                else if vr \<le> 0.7 then s1 - 1 else s1);
          s3 = (if bbw = BBW_high then s2 + 1 else s2);
          s4 = (if bbw = BBW_low then s3 - 1 else s3);
          st = (if \<bar>s4\<bar> \<ge> 4 then STRONG else if \<bar>s4\<bar> \<ge> 2 then MED else WEAK)
      in \<lparr> score = s4, strength = st \<rparr>)"

record cand =
  cdir :: dir
  reason :: string

definition directionCandidate :: "trend \<Rightarrow> indicators \<Rightarrow> cand" where
  "directionCandidate tr ind =
     (let macdH = (case macd ind of None \<Rightarrow> None | Some m \<Rightarrow> histogram m)
      in if tr = UP then
           (if (case rsi ind of None \<Rightarrow> False | Some r \<Rightarrow> r \<ge> 70)
            then \<lparr> cdir = SHORT_CANDIDATE, reason = ''RSI_OVERBOUGHT_IN_UPTREND'' \<rparr>
            else \<lparr> cdir = LONG, reason = ''UPTREND_RSI_OK'' \<rparr>)
         else if tr = DOWN then
           (if (case rsi ind of None \<Rightarrow> False | Some r \<Rightarrow> r \<le> 30)
            then \<lparr> cdir = LONG_CANDIDATE, reason = ''RSI_OVERSOLD_IN_DOWNTREND'' \<rparr>
            else \<lparr> cdir = SHORT, reason = ''DOWNTREND_RSI_OK'' \<rparr>)
         else
           (case (rsi ind, macdH) of
              (Some r, Some h) \<Rightarrow>
                if r > 55 \<and> h > 0 then \<lparr> cdir = LONG, reason = ''SIDE_BULL_BIAS'' \<rparr>
                else if r < 45 \<and> h < 0 then \<lparr> cdir = SHORT, reason = ''SIDE_BEAR_BIAS'' \<rparr>
                else \<lparr> cdir = NO_TRADE, reason = ''SIDE_NO_EDGE'' \<rparr>
            | _ \<Rightarrow> \<lparr> cdir = NO_TRADE, reason = ''SIDE_NO_EDGE'' \<rparr>))"

subsection \<open>Confidence scorer and risk adjuster\<close>

definition baseConfidence :: "trend \<Rightarrow> momentum \<Rightarrow> ticker24 \<Rightarrow> int" where
  "baseConfidence tr mom t =
     (let high = highPrice t; low = lowPrice t; lastp = lastPrice t;
          vol = (if lastp > 0 then ((high - low) / lastp) * 100 else 0);
          c0 = (50::int);
          aligned = ((tr = UP \<and> score mom > 0) \<or> (tr = DOWN \<and> score mom < 0)
                     \<or> (tr = SIDE \<and> \<bar>score mom\<bar> \<ge> 2));
          c1 = c0 + (if aligned then 10 else - 8);
          c2 = (if strength mom = STRONG then c1 + 15
                else if strength mom = MED then c1 + 8 else c1 - 5);
          c3 = (if vol > 5 then c2 + 8 else if vol > 2 then c2 + 4 else c2 - 3)
      in clamp c3 0 100)"

record liq =
  intensityScore :: real
  dirBias :: int
  notionalSum :: real

record liq_adj =
  adj_confidence :: int
  veto :: bool
  adj_warnings :: "string list"

definition applyLiquidationAdjustments :: "dir \<Rightarrow> int \<Rightarrow> liq \<Rightarrow> liq_adj" where
  "applyLiquidationAdjustments direction confidence l =
     (let v1 = (if direction = LONG \<and> dirBias l = 1 \<and> intensityScore l \<ge> LIQ_THR_HIGH
                then True else False);
          v2 = (if direction = SHORT \<and> dirBias l = - 1 \<and> intensityScore l \<ge> LIQ_THR_HIGH
                then True else v1);
          cw = (if intensityScore l \<ge> LIQ_THR_HIGH
                  then (confidence - LIQ_PENALTY_HIGH, [''LIQ_INTENSITY_HIGH''])
                else if intensityScore l \<ge> LIQ_THR_MED
                  then (confidence - LIQ_PENALTY_MED, [''LIQ_INTENSITY_MED''])
                else if intensityScore l \<ge> LIQ_THR_LOW
                  then (confidence - LIQ_PENALTY_LOW, [''LIQ_INTENSITY_LOW''])
                else (confidence, []));
          aligns = ((direction = SHORT \<and> dirBias l = 1) \<or> (direction = LONG \<and> dirBias l = - 1));
          cw' = (if aligns then (fst cw + LIQ_BONUS_ALIGN, snd cw @ [''LIQ_ALIGNS_WITH_SIGNAL''])
                 else cw)
      in \<lparr> adj_confidence = clamp (fst cw') 0 100, veto = v2, adj_warnings = snd cw' \<rparr>)"

subsection \<open>Target planner\<close>

definition chooseSLMult :: "int \<Rightarrow> mom_strength \<Rightarrow> bool \<Rightarrow> real \<Rightarrow> bb_width \<Rightarrow> real" where
  "chooseSLMult confidence momentumStrength isReversal liqIntensity bbw =
     (let m0 = SL_ATR_MULT_LOW;
          m1 = (if isReversal then max m0 2.5 else m0);
          m2 = (if confidence < 68 then max m1 2.5 else m1);
          m3 = (if liqIntensity \<ge> LIQ_THR_MED then max m2 2.5 else m2);
          m4 = (if bbw = BBW_high then max m3 2.5 else m3)
      in min SL_ATR_MULT_HIGH m4)"

definition chooseRR :: "int \<Rightarrow> mom_strength \<Rightarrow> real" where
  "chooseRR confidence momentumStrength =
     (if confidence \<ge> 75 \<and> momentumStrength = STRONG then RR_HIGH else RR_BASE)"

record tpsl =
  pl_slPrice :: real
  pl_tpPrice :: real
  pl_atr :: real
  slAtrMult :: real
  rr :: real

definition pickTpSlATR ::
  "real \<Rightarrow> real \<Rightarrow> dir \<Rightarrow> int \<Rightarrow> mom_strength \<Rightarrow> bool \<Rightarrow> real \<Rightarrow> bb_width \<Rightarrow> tpsl option" where
  "pickTpSlATR entry atr' direction confidence momentumStrength isReversal liqIntensity bbw =
     (if \<not> (atr' > 0) then None
      else
        (let slMult = chooseSLMult confidence momentumStrength isReversal liqIntensity bbw;
             rr' = chooseRR confidence momentumStrength;
             slDist0 = slMult * atr';
             tpDist0 = rr' * slDist0;
             slDist = max slDist0 (bpsToDist entry MIN_SL_BPS);
             tpDist = max tpDist0 (bpsToDist entry MIN_TP_BPS);
             sl = (if direction = LONG then entry - slDist else entry + slDist);
             tp = (if direction = LONG then entry + tpDist else entry - tpDist)
         in Some \<lparr> pl_slPrice = sl, pl_tpPrice = tp, pl_atr = atr', slAtrMult = slMult,
                   rr = rr' \<rparr>))"

subsection \<open>Tick rounding\<close>

text \<open>
  The exchange's tick size is a string; \<open>tickSizeNum\<close> is \<^verbatim>\<open>Number(tickSizeStr)\<close>, which
  the model receives next to the string itself.
\<close>

record tick =
  tickSizeStr :: string
  tickSizeNum :: real

fun stripTrailingZeros :: "string \<Rightarrow> string" where
  "stripTrailingZeros s = rev (dropWhile (\<lambda>ch. ch = CHR ''0'') (rev s))"

text \<open>\<^verbatim>\<open>s.split(".")[1]\<close>: what stands between the first and the second dot.\<close>

definition afterFirstDot :: "string \<Rightarrow> string" where
  "afterFirstDot s =
     takeWhile (\<lambda>ch. ch \<noteq> CHR ''.'') (drop 1 (dropWhile (\<lambda>ch. ch \<noteq> CHR ''.'') s))"

definition tickDecimals :: "string \<Rightarrow> nat" where
  "tickDecimals s =
     (if CHR ''.'' \<notin> set s then 0 else length (stripTrailingZeros (afterFirstDot s)))"

datatype round_mode = RoundUp | RoundDown | RoundNearest

text \<open>\<^verbatim>\<open>Number(x.toFixed(d))\<close>: the nearest multiple of \<open>10^-d\<close>, ties away from zero.\<close>

definition toFixed :: "real \<Rightarrow> nat \<Rightarrow> real" where
  "toFixed x d =
     (if x < 0 then - (real_of_int \<lfloor>(- x) * 10 ^ d + 1 / 2\<rfloor> / 10 ^ d)
      else real_of_int \<lfloor>x * 10 ^ d + 1 / 2\<rfloor> / 10 ^ d)"

definition roundToTick :: "real \<Rightarrow> tick \<Rightarrow> round_mode \<Rightarrow> real" where
  "roundToTick price tk md =
     (let step = tickSizeNum tk
      in if step \<le> 0 then price
         else
           (let eps = 1 / 10 ^ 12; raw = price / step;
                n = (case md of
                       RoundUp \<Rightarrow> \<lceil>raw - eps\<rceil>
                     | RoundDown \<Rightarrow> \<lfloor>raw + eps\<rfloor>
                     | RoundNearest \<Rightarrow> \<lfloor>raw + 1 / 2\<rfloor>);
                dec = tickDecimals (tickSizeStr tk);
                out = real_of_int n * step
            in toFixed out dec))"

record rounded =
  r_slPrice :: real
  r_tpPrice :: real

definition roundSLTP :: "real \<Rightarrow> real \<Rightarrow> real \<Rightarrow> tick \<Rightarrow> dir \<Rightarrow> rounded" where
  "roundSLTP entry sl tp tk direction =
     (if direction = LONG then
        (let slR = roundToTick sl tk RoundDown; tpR = roundToTick tp tk RoundUp
         in \<lparr> r_slPrice = min slR (entry - tickSizeNum tk),
              r_tpPrice = max tpR (entry + tickSizeNum tk) \<rparr>)
      else
        (let slR = roundToTick sl tk RoundUp; tpR = roundToTick tp tk RoundDown
         in \<lparr> r_slPrice = max slR (entry + tickSizeNum tk),
              r_tpPrice = min tpR (entry - tickSizeNum tk) \<rparr>))"

subsection \<open>Rendering tags and numbers into ids and reasons\<close>

fun dir_str :: "dir \<Rightarrow> string" where
  "dir_str LONG = ''LONG''"
| "dir_str SHORT = ''SHORT''"
| "dir_str LONG_CANDIDATE = ''LONG_CANDIDATE''"
| "dir_str SHORT_CANDIDATE = ''SHORT_CANDIDATE''"
| "dir_str NO_TRADE = ''NO_TRADE''"
| "dir_str NONE = ''NONE''"

fun trend_str :: "trend \<Rightarrow> string" where
  "trend_str UP = ''UP''"
| "trend_str DOWN = ''DOWN''"
| "trend_str SIDE = ''SIDE''"

fun strength_str :: "mom_strength \<Rightarrow> string" where
  "strength_str WEAK = ''WEAK''"
| "strength_str MED = ''MED''"
| "strength_str STRONG = ''STRONG''"

definition digit_char :: "nat \<Rightarrow> char" where
  "digit_char d = ''0123456789'' ! (d mod 10)"

function show_nat :: "nat \<Rightarrow> string" where
  "show_nat n = (if n < 10 then [digit_char n] else show_nat (n div 10) @ [digit_char (n mod 10)])"
  by pat_completeness auto
termination
  by (relation "measure id") auto

declare show_nat.simps [simp del]

definition show_int :: "int \<Rightarrow> string" where
  "show_int i = (if i < 0 then ''-'' @ show_nat (nat (- i)) else show_nat (nat i))"

text \<open>A template literal prints a missing value as \<^verbatim>\<open>undefined\<close>.\<close>

definition show_int_opt :: "int option \<Rightarrow> string" where
  "show_int_opt x = (case x of None \<Rightarrow> ''undefined'' | Some i \<Rightarrow> show_int i)"

definition makePreviewId :: "string \<Rightarrow> dir \<Rightarrow> int \<Rightarrow> string" where
  "makePreviewId symb direction bucketMs =
     ''PREVIEW|'' @ symb @ ''|'' @ dir_str direction @ ''|'' @ show_int bucketMs"

definition makeConfirmedId :: "string \<Rightarrow> dir \<Rightarrow> int option \<Rightarrow> string" where
  "makeConfirmedId symb direction candleCloseTimeMs =
     ''CONFIRMED|'' @ symb @ ''|'' @ dir_str direction @ ''|'' @ show_int_opt candleCloseTimeMs"

subsection \<open>The Redis store\<close>

text \<open>
  The store is the external collaborator of the bot: keys with a time to live, \<^verbatim>\<open>get\<close>,
  \<^verbatim>\<open>set\<close> with \<^verbatim>\<open>ex\<close> seconds, \<^verbatim>\<open>set\<close> with \<^verbatim>\<open>nx\<close> (set if absent) and \<^verbatim>\<open>del\<close>.
  An entry holds its value and the time at which it expires; it is visible while the
  clock is before that time. The five key families have disjoint prefixes, so each is a
  map of its own, typed by what the bot stores under it.
\<close>

type_synonym 'v kv = "string \<rightharpoonup> ('v \<times> int)"

definition redis_get :: "'v kv \<Rightarrow> string \<Rightarrow> int \<Rightarrow> 'v option" where
  "redis_get m k now =
     (case m k of None \<Rightarrow> None | Some (v, expiry) \<Rightarrow> if now < expiry then Some v else None)"

definition redis_set :: "'v kv \<Rightarrow> string \<Rightarrow> 'v \<Rightarrow> int \<Rightarrow> int \<Rightarrow> 'v kv" where
  "redis_set m k v ex now = m(k \<mapsto> (v, now + ex * 1000))"

definition redis_del :: "'v kv \<Rightarrow> string \<Rightarrow> 'v kv" where
  "redis_del m k = m(k := None)"

definition redis_set_nx :: "'v kv \<Rightarrow> string \<Rightarrow> 'v \<Rightarrow> int \<Rightarrow> int \<Rightarrow> 'v kv \<times> bool" where
  "redis_set_nx m k v ex now =
     (if redis_get m k now = None then (redis_set m k v ex now, True) else (m, False))"

record snapshot =
  momentumScore :: int
  s_bbWidthClass :: bb_width
  s_atr :: "real option"
  s_lastCandleCloseTime :: "int option"

record pending =
  signal_id :: string
  p_direction :: dir
  created_ts :: int
  confirm_requested :: bool
  snapshot_metrics :: "snapshot option"

record lastsig =
  ls_ts :: int
  ls_id :: string
  ls_mode :: mode
  ls_reason :: "string option"

text \<open>The liquidation record another process writes; a missing field reads as 0.\<close>

record liq_stored =
  st_intensityScore :: "real option"
  st_dirBias :: "int option"
  st_notionalSum :: "real option"

record store =
  cooldowns :: "int kv"
  pendings :: "pending kv"
  lastsigs :: "lastsig kv"
  dedupes :: "int kv"
  liqs :: "liq_stored kv"

definition kCooldown :: "string \<Rightarrow> string" where "kCooldown symb = ''sig:cooldown:'' @ symb"
definition kPending :: "string \<Rightarrow> string" where "kPending symb = ''sig:pending:'' @ symb"
definition kLastSig :: "string \<Rightarrow> string" where "kLastSig symb = ''sig:lastsig:'' @ symb"
definition kDedupe :: "string \<Rightarrow> string" where "kDedupe i = ''sig:dedupe:'' @ i"
definition kLiq :: "string \<Rightarrow> string" where "kLiq symb = ''liq:'' @ symb"

record state =
  cooldown_until_ts :: int
  pending_confirm :: "pending option"
  last_signal :: "lastsig option"

definition getState :: "store \<Rightarrow> string \<Rightarrow> int \<Rightarrow> state" where
  "getState s symb now =
     \<lparr> cooldown_until_ts =
         (case redis_get (cooldowns s) (kCooldown symb) now of None \<Rightarrow> 0 | Some c \<Rightarrow> c),
       pending_confirm = redis_get (pendings s) (kPending symb) now,
       last_signal = redis_get (lastsigs s) (kLastSig symb) now \<rparr>"

definition saveCooldown :: "store \<Rightarrow> string \<Rightarrow> int \<Rightarrow> int \<Rightarrow> store" where
  "saveCooldown s symb cooldownUntilMs now =
     s\<lparr> cooldowns := redis_set (cooldowns s) (kCooldown symb) cooldownUntilMs TTL_COOLDOWN_SEC now \<rparr>"

definition savePending :: "store \<Rightarrow> string \<Rightarrow> pending \<Rightarrow> int \<Rightarrow> store" where
  "savePending s symb pendingObj now =
     s\<lparr> pendings := redis_set (pendings s) (kPending symb) pendingObj TTL_PENDING_SEC now \<rparr>"

definition clearPending :: "store \<Rightarrow> string \<Rightarrow> store" where
  "clearPending s symb = s\<lparr> pendings := redis_del (pendings s) (kPending symb) \<rparr>"

definition saveLastSignal :: "store \<Rightarrow> string \<Rightarrow> lastsig \<Rightarrow> int \<Rightarrow> store" where
  "saveLastSignal s symb obj now =
     s\<lparr> lastsigs := redis_set (lastsigs s) (kLastSig symb) obj TTL_LASTSIG_SEC now \<rparr>"

definition tryDedupeOrDrop :: "store \<Rightarrow> string \<Rightarrow> int \<Rightarrow> store \<times> bool" where
  "tryDedupeOrDrop s signalId now =
     (let r = redis_set_nx (dedupes s) (kDedupe signalId) 1 DEDUPE_TTL_SECONDS now
      in (s\<lparr> dedupes := fst r \<rparr>, snd r))"

definition getLiquidationFromRedis :: "store \<Rightarrow> string \<Rightarrow> int \<Rightarrow> liq" where
  "getLiquidationFromRedis s symb now =
     (case redis_get (liqs s) (kLiq symb) now of
        None \<Rightarrow> \<lparr> intensityScore = 0, dirBias = 0, notionalSum = 0 \<rparr>
      | Some x \<Rightarrow>
          \<lparr> intensityScore = (case st_intensityScore x of None \<Rightarrow> 0 | Some v \<Rightarrow> v),
            dirBias = (case st_dirBias x of None \<Rightarrow> 0 | Some v \<Rightarrow> v),
            notionalSum = (case st_notionalSum x of None \<Rightarrow> 0 | Some v \<Rightarrow> v) \<rparr>)"

subsection \<open>Signals and the inputs of an evaluation\<close>

record meta =
  m_atr :: real
  m_slAtrMult :: real
  m_rr :: real
  m_tickSize :: tick

text \<open>The signal object; the shape of its \<^verbatim>\<open>meta\<close> differs between the variants.\<close>

record 'm signal =
  sig_id :: string
  symbol :: string
  mode :: mode
  direction :: dir
  confidence :: int
  entryRefPrice :: "real option"
  tpPrice :: "real option"
  slPrice :: "real option"
  meta :: "'m"
  reasons :: "string list"
  warnings :: "string list"
  created :: int
  confirmed :: "int option"

text \<open>
  The premium index entry after \<^verbatim>\<open>Number(...)\<close>. \<open>nextFundingTime\<close> is \<open>None\<close> when
  \<^verbatim>\<open>Number.isFinite(nextFundingMs)\<close> is false.
\<close>

record prem =
  markPrice :: real
  nextFundingTime :: "int option"
  lastFundingRate :: real

text \<open>
  What an evaluation reads from outside the store: the indicator library, the clock and
  the klines the exchange returns for a symbol.
\<close>

record env =
  e_lib :: indicator_lib
  e_now :: int
  e_klines :: "string \<Rightarrow> krow list"

text \<open>
  The candidate's direction with the \<^verbatim>\<open>_CANDIDATE\<close> suffix resolved, as both
  evaluations do inline (\<^verbatim>\<open>let direction = cand.dir, isReversal = false; if ...\<close>).
\<close>

definition resolveCandidate :: "dir \<Rightarrow> dir \<times> bool" where
  "resolveCandidate d =
     (if d = LONG_CANDIDATE then (LONG, True)
      else if d = SHORT_CANDIDATE then (SHORT, True)
      else (d, False))"

text \<open>
  The funding warning both evaluations append to the liquidation warnings:
  \<^verbatim>\<open>Number.isFinite(nextFundingMs) && minutesTo(nextFundingMs) <= 30 &&
  Math.abs(lastFundingRate) >= 0.0002\<close>.
\<close>

definition fundingWarnings :: "prem \<Rightarrow> int \<Rightarrow> string list" where
  "fundingWarnings p now =
     (case nextFundingTime p of
        None \<Rightarrow> []
      | Some nextFundingMs \<Rightarrow>
          if minutesTo nextFundingMs now \<le> FUNDING_WARN_MINUTES
             \<and> \<bar>lastFundingRate p\<bar> \<ge> FUNDING_RATE_ABS_WARN
          then [''FUNDING_SOON_HIGH_RATE''] else [])"

subsection \<open>The lifecycle: preview, confirmation request, confirmation on close\<close>

definition evaluateIntrabarForSymbol ::
  "env \<Rightarrow> store \<Rightarrow> string \<Rightarrow> tick \<Rightarrow> (string \<rightharpoonup> ticker24) \<Rightarrow> (string \<rightharpoonup> prem)
   \<Rightarrow> meta option signal option \<times> store" where
  "evaluateIntrabarForSymbol ev s symb tickSize tickerMap premiumMap =
     (let now = e_now ev; st = getState s symb now
      in if now < cooldown_until_ts st then (None, s)
         else (case tickerMap symb of None \<Rightarrow> (None, s) | Some tkr \<Rightarrow>
         (case premiumMap symb of None \<Rightarrow> (None, s) | Some pr \<Rightarrow>
         (let c = parseCandleRows (e_klines ev symb)
          in if length (c_close c) < ATR_PERIOD + 2 then (None, s)
             else
             (let ind = computeIndicatorsFromCandles (e_lib ev) c
              in if rsi ind = None \<or> macd ind = None \<or> bb ind = None then (None, s)
                 else (case atr ind of None \<Rightarrow> (None, s) | Some atrv \<Rightarrow>
                 (let tr = classifyTrend tkr ind; mom = computeMomentum ind;
                      cd = directionCandidate tr ind
                  in if cdir cd = NO_TRADE then (None, s)
                     else
                     (let direction' = fst (resolveCandidate (cdir cd));
                          isReversal = snd (resolveCandidate (cdir cd));
                          conf0 = baseConfidence tr mom tkr;
                          lq = getLiquidationFromRedis s symb now;
                          liqAdj = applyLiquidationAdjustments direction' conf0 lq;
                          conf = adj_confidence liqAdj
                      in if veto liqAdj then (None, s)
                         else if conf < MIN_CONF_SHOW then (None, s)
                         else
                         (let entry = markPrice pr
                          in if \<not> (entry > 0) then (None, s)
                             else
                             (let warnings' = adj_warnings liqAdj @ fundingWarnings pr now
                              in case pickTpSlATR entry atrv direction' conf (strength mom)
                                        isReversal (intensityScore lq) (bbWidthClass ind) of
                                   None \<Rightarrow> (None, s)
                                 | Some pl \<Rightarrow>
                                   (let rounded' = roundSLTP entry (pl_slPrice pl) (pl_tpPrice pl)
                                                     tickSize direction';
                                        bucketMs = floorTimeBucket now DEDUPE_SCOPE_SECONDS;
                                        sigId = makePreviewId symb direction' bucketMs;
                                        dd = tryDedupeOrDrop s sigId now
                                    in if \<not> snd dd then (None, fst dd)
                                       else
                                       (let sg = \<lparr> sig_id = sigId, symbol = symb, mode = PREVIEW,
                                                   direction = direction', confidence = conf,
                                                   entryRefPrice = Some entry,
                                                   tpPrice = Some (r_tpPrice rounded'),
                                                   slPrice = Some (r_slPrice rounded'),
                                                   meta = Some \<lparr> m_atr = pl_atr pl,
                                                            m_slAtrMult = slAtrMult pl,
                                                            m_rr = rr pl, m_tickSize = tickSize \<rparr>,
                                                   reasons = [reason cd, ''TREND='' @ trend_str tr,
                                                              ''MOM='' @ strength_str (strength mom),
                                                              ''ATR_TPSL'', ''TICK_ROUNDED''],
                                                   warnings = warnings', created = now,
                                                   confirmed = None \<rparr>;
                                            pendingObj =
                                              \<lparr> signal_id = sigId, p_direction = direction',
                                                created_ts = now, confirm_requested = False,
                                                snapshot_metrics =
                                                  Some \<lparr> momentumScore = score mom,
                                                         s_bbWidthClass = bbWidthClass ind,
                                                         s_atr = atr ind,
                                                         s_lastCandleCloseTime =
                                                           lastCandleCloseTime ind \<rparr> \<rparr>;
                                            s1 = savePending (fst dd) symb pendingObj now;
                                            s2 = saveLastSignal s1 symb
                                                   \<lparr> ls_ts = now, ls_id = sigId, ls_mode = PREVIEW,
                                                     ls_reason = None \<rparr> now
                                        in (Some sg, s2)))))))))))))"

record confirm_result =
  ok :: bool
  cr_reason :: "string option"

definition userRequestConfirm :: "store \<Rightarrow> string \<Rightarrow> int \<Rightarrow> confirm_result \<times> store" where
  "userRequestConfirm s symb now =
     (case pending_confirm (getState s symb now) of
        None \<Rightarrow> (\<lparr> ok = False, cr_reason = Some ''NO_PENDING_PREVIEW'' \<rparr>, s)
      | Some p \<Rightarrow>
          (\<lparr> ok = True, cr_reason = None \<rparr>,
           savePending s symb (p\<lparr> confirm_requested := True \<rparr>) now))"

definition invalidate ::
  "store \<Rightarrow> string \<Rightarrow> string \<Rightarrow> int \<Rightarrow> meta option signal \<times> store" where
  "invalidate s symb rsn now =
     (let cooldownUntil = now + COOLDOWN_INVALIDATED_MIN * 60000;
          invId = ''INVALID|'' @ symb @ ''|'' @ show_int (floorTimeBucket now 60) @ ''|'' @ rsn;
          s1 = saveCooldown s symb cooldownUntil now;
          s2 = clearPending s1 symb;
          s3 = saveLastSignal s2 symb
                 \<lparr> ls_ts = now, ls_id = invId, ls_mode = INVALIDATED, ls_reason = Some rsn \<rparr> now
      in (\<lparr> sig_id = invId, symbol = symb, mode = INVALIDATED, direction = NONE,
            confidence = 0, entryRefPrice = None, tpPrice = None, slPrice = None,
            meta = None, reasons = [rsn], warnings = [], created = now,
            confirmed = None \<rparr>, s3))"

text \<open>\<^verbatim>\<open>return await invalidate(symbol, reason)\<close>.\<close>

definition invalidated ::
  "store \<Rightarrow> string \<Rightarrow> string \<Rightarrow> int \<Rightarrow> meta option signal option \<times> store" where
  "invalidated s symb rsn now =
     (Some (fst (invalidate s symb rsn now)), snd (invalidate s symb rsn now))"

text \<open>
  The reversal check of the close evaluation:
  \<^verbatim>\<open>(directionNow === "SHORT" && ind.rsi < 70) || (directionNow === "LONG" && ind.rsi > 30)
  || (momentum.score < (p.snapshot_metrics?.momentumScore ?? momentum.score))
  || (momentum.score > (p.snapshot_metrics?.momentumScore ?? momentum.score))\<close>.
\<close>

definition snapshotScoreOr :: "pending \<Rightarrow> int \<Rightarrow> int" where
  "snapshotScoreOr p dflt = (case snapshot_metrics p of None \<Rightarrow> dflt | Some sn \<Rightarrow> momentumScore sn)"

definition reversalOk :: "dir \<Rightarrow> real \<Rightarrow> momentum \<Rightarrow> pending \<Rightarrow> bool" where
  "reversalOk directionNow r mom p =
     ((directionNow = SHORT \<and> r < 70) \<or> (directionNow = LONG \<and> r > 30)
      \<or> score mom < snapshotScoreOr p (score mom)
      \<or> score mom > snapshotScoreOr p (score mom))"

definition confirmOnCloseForSymbol ::
  "env \<Rightarrow> store \<Rightarrow> string \<Rightarrow> tick \<Rightarrow> (string \<rightharpoonup> ticker24) \<Rightarrow> (string \<rightharpoonup> prem)
   \<Rightarrow> meta option signal option \<times> store" where
  "confirmOnCloseForSymbol ev s symb tickSize tickerMap premiumMap =
     (let now = e_now ev; st = getState s symb now
      in case pending_confirm st of None \<Rightarrow> (None, s) | Some p \<Rightarrow>
         if confirm_requested p \<noteq> True then (None, s)
         else (case tickerMap symb of None \<Rightarrow> (None, s) | Some tkr \<Rightarrow>
         (case premiumMap symb of None \<Rightarrow> (None, s) | Some pr \<Rightarrow>
         (let c = parseCandleRows (e_klines ev symb)
          in if length (c_close c) < ATR_PERIOD + 2
             then invalidated s symb ''CLOSE_ATR_UNAVAILABLE'' now
             else
             (let ind = computeIndicatorsFromCandles (e_lib ev) c
              in case rsi ind of
                   None \<Rightarrow> invalidated s symb ''CLOSE_ATR_UNAVAILABLE'' now
                 | Some rsiv \<Rightarrow>
                 if macd ind = None \<or> bb ind = None
                 then invalidated s symb ''CLOSE_ATR_UNAVAILABLE'' now
                 else (case atr ind of
                   None \<Rightarrow> invalidated s symb ''CLOSE_ATR_UNAVAILABLE'' now
                 | Some atrv \<Rightarrow>
                 (let tr = classifyTrend tkr ind; mom = computeMomentum ind;
                      cd = directionCandidate tr ind
                  in if cdir cd = NO_TRADE then invalidated s symb ''CLOSE_NO_TRADE'' now
                     else
                     (let directionNow = fst (resolveCandidate (cdir cd));
                          isReversalNow = snd (resolveCandidate (cdir cd))
                      in if directionNow \<noteq> p_direction p
                         then invalidated s symb ''CLOSE_DIRECTION_CHANGED'' now
                         else if isReversalNow \<and> \<not> reversalOk directionNow rsiv mom p
                         then invalidated s symb ''CLOSE_REVERSAL_NOT_CONFIRMED'' now
                         else
                         (let conf0 = baseConfidence tr mom tkr;
                              lq = getLiquidationFromRedis s symb now;
                              liqAdj = applyLiquidationAdjustments directionNow conf0 lq;
                              conf = adj_confidence liqAdj
                          in if veto liqAdj then invalidated s symb ''CLOSE_LIQ_VETO'' now
                             else if conf < MIN_CONF_CONFIRMED
                             then invalidated s symb ''CLOSE_CONFIDENCE_LOW'' now
                             else
                             (let entry = markPrice pr
                              in if \<not> (entry > 0) then invalidated s symb ''CLOSE_BAD_ENTRY'' now
                                 else
                                 (let warnings' = adj_warnings liqAdj @ fundingWarnings pr now
                                  in case pickTpSlATR entry atrv directionNow conf (strength mom)
                                            isReversalNow (intensityScore lq) (bbWidthClass ind) of
                                       None \<Rightarrow> invalidated s symb ''CLOSE_ATR_UNAVAILABLE'' now
                                     | Some pl \<Rightarrow>
                                       (let rounded' = roundSLTP entry (pl_slPrice pl)
                                                         (pl_tpPrice pl) tickSize directionNow;
                                            sigId = makeConfirmedId symb directionNow
                                                      (lastCandleCloseTime ind);
                                            dd = tryDedupeOrDrop s sigId now
                                        in if \<not> snd dd then (None, fst dd)
                                           else
                                           (let sg = \<lparr> sig_id = sigId, symbol = symb,
                                                       mode = CONFIRMED, direction = directionNow,
                                                       confidence = conf,
                                                       entryRefPrice = Some entry,
                                                       tpPrice = Some (r_tpPrice rounded'),
                                                       slPrice = Some (r_slPrice rounded'),
                                                       meta = Some \<lparr> m_atr = pl_atr pl,
                                                                m_slAtrMult = slAtrMult pl,
                                                                m_rr = rr pl,
                                                                m_tickSize = tickSize \<rparr>,
                                                       reasons =
                                                         [reason cd, ''TREND='' @ trend_str tr,
                                                          ''MOM='' @ strength_str (strength mom),
                                                          ''CONFIRMED_ON_CLOSE'', ''ATR_TPSL'',
                                                          ''TICK_ROUNDED''],
                                                       warnings = warnings',
                                                       created = created_ts p,
                                                       confirmed = Some now \<rparr>;
                                                cooldownUntil = now + COOLDOWN_CONFIRMED_MIN * 60000;
                                                s1 = saveCooldown (fst dd) symb cooldownUntil now;
                                                s2 = clearPending s1 symb;
                                                s3 = saveLastSignal s2 symb
                                                       \<lparr> ls_ts = now, ls_id = sigId,
                                                         ls_mode = CONFIRMED, ls_reason = None \<rparr> now
                                            in (Some sg, s3))))))))))))))"

subsection \<open>The CoinGecko variant: reversal check and invalidation\<close>

text \<open>
  \<^verbatim>\<open>trade-bot.mjs\<close> writes the reversal check of the close evaluation as
  \<^verbatim>\<open>const prev = Number(p.snapshot_metrics?.momentumScore ?? momentum.score);
  const ok = (directionNow === "SHORT" && ind.rsi < 70) ||
  (directionNow === "LONG" && ind.rsi > 30) || (momentum.score !== prev)\<close>,
  and hashes every id with SHA-1, a function of \<^verbatim>\<open>node:crypto\<close> that the model takes
  as a parameter.
\<close>

definition reversalOk_mjs :: "dir \<Rightarrow> real \<Rightarrow> momentum \<Rightarrow> pending \<Rightarrow> bool" where
  "reversalOk_mjs directionNow r mom p =
     (let prev = snapshotScoreOr p (score mom)
      in (directionNow = SHORT \<and> r < 70) \<or> (directionNow = LONG \<and> r > 30) \<or> score mom \<noteq> prev)"

definition invalidate_mjs ::
  "(string \<Rightarrow> string) \<Rightarrow> store \<Rightarrow> string \<Rightarrow> string \<Rightarrow> int \<Rightarrow> 'm option signal \<times> store" where
  "invalidate_mjs sha1 s symb rsn now =
     (let cooldownUntil = now + COOLDOWN_INVALIDATED_MIN * 60000;
          invId = sha1 (''INVALID|'' @ symb @ ''|'' @ show_int (floorTimeBucket now 60)
                        @ ''|'' @ rsn);
          s1 = saveCooldown s symb cooldownUntil now;
          s2 = clearPending s1 symb;
          s3 = saveLastSignal s2 symb
                 \<lparr> ls_ts = now, ls_id = invId, ls_mode = INVALIDATED, ls_reason = Some rsn \<rparr> now
      in (\<lparr> sig_id = invId, symbol = symb, mode = INVALIDATED, direction = NONE,
            confidence = 0, entryRefPrice = None, tpPrice = None, slPrice = None,
            meta = None, reasons = [rsn], warnings = [], created = now,
            confirmed = None \<rparr>, s3))"

subsection \<open>The CoinAPI variant with the debugging overrides: intrabar evaluation\<close>

text \<open>
  A later copy of \<^verbatim>\<open>trade-bot.js\<close> reads its candles from CoinAPI. Its helpers are the
  same text as above except the ones below. In its \<^verbatim>\<open>evaluateIntrabarForSymbol\<close> the
  first statement and the dedupe claim are commented out,
  \<^verbatim>\<open>// Skip cooldown check temporarily for debugging\<close>
  \<^verbatim>\<open>// const st = await getState(symbol); if (nowMs() < st.cooldown_until_ts) return null;\<close>
  \<^verbatim>\<open>// Skip dedupe for debugging - always show signals\<close>
  \<^verbatim>\<open>// const deduped = await tryDedupeOrDrop(sigId); if (!deduped) return null;\<close>
  every early exit returns a \<^verbatim>\<open>SKIP|symbol\<close> object of mode PREVIEW instead of
  \<^verbatim>\<open>null\<close>, and the veto and the confidence threshold are not consulted. The two
  writes at its end stand in a \<^verbatim>\<open>try\<close> whose \<^verbatim>\<open>catch\<close> adds the warning
  \<^verbatim>\<open>REDIS_SAVE_FAILED\<close>; a failing store is outside the model here as elsewhere.
\<close>

record ohlcv_row = krow +
  time_period_start :: int

record env_coinapi =
  ca_lib :: indicator_lib
  ca_now :: int
  ca_ohlcv :: "string \<Rightarrow> ohlcv_row list"

text \<open>\<^verbatim>\<open>fetchKlines1h\<close>: throws on an empty answer, else sorts by period start.\<close>

definition fetchKlines1h_coinapi :: "ohlcv_row list \<Rightarrow> string \<Rightarrow> string + ohlcv_row list" where
  "fetchKlines1h_coinapi data symbolId =
     (if data = [] then Inl (''No hourly OHLCV data for '' @ symbolId)
      else Inr (sort_key time_period_start data))"

definition parseCandleRows_coinapi :: "ohlcv_row list \<Rightarrow> candles" where
  "parseCandleRows_coinapi rows =
     \<lparr> c_open = map k_open rows, c_high = map k_high rows, c_low = map k_low rows,
       c_close = map k_close rows, c_volume = map k_volume rows,
       c_closeTime = map k_closeTime rows \<rparr>"

definition tickDecimals_coinapi :: "string \<Rightarrow> nat" where
  "tickDecimals_coinapi s = (if s = [] then 2 else tickDecimals s)"

definition roundToTick_coinapi :: "real \<Rightarrow> tick \<Rightarrow> round_mode \<Rightarrow> real" where
  "roundToTick_coinapi price tk md =
     (let step = tickSizeNum tk
      in if step \<le> 0 then price
         else
           (let eps = 1 / 10 ^ 12; raw = price / step;
                n = (case md of
                       RoundUp \<Rightarrow> \<lceil>raw - eps\<rceil>
                     | RoundDown \<Rightarrow> \<lfloor>raw + eps\<rfloor>
                     | RoundNearest \<Rightarrow> \<lfloor>raw + 1 / 2\<rfloor>);
                dec = tickDecimals_coinapi (tickSizeStr tk);
                out = real_of_int n * step
            in toFixed out dec))"

definition roundSLTP_coinapi :: "real \<Rightarrow> real \<Rightarrow> real \<Rightarrow> tick \<Rightarrow> dir \<Rightarrow> rounded" where
  "roundSLTP_coinapi entry sl tp tk direction' =
     (if direction' = LONG then
        (let slR = roundToTick_coinapi sl tk RoundDown; tpR = roundToTick_coinapi tp tk RoundUp
         in \<lparr> r_slPrice = min slR (entry - tickSizeNum tk),
              r_tpPrice = max tpR (entry + tickSizeNum tk) \<rparr>)
      else
        (let slR = roundToTick_coinapi sl tk RoundUp; tpR = roundToTick_coinapi tp tk RoundDown
         in \<lparr> r_slPrice = max slR (entry + tickSizeNum tk),
              r_tpPrice = min tpR (entry - tickSizeNum tk) \<rparr>))"

text \<open>\<^verbatim>\<open>fetchMarketData\<close> returns the same object on both of its paths.\<close>

definition fetchMarketData :: "string \<Rightarrow> prem" where
  "fetchMarketData symbolId = \<lparr> markPrice = 0, nextFundingTime = Some 0, lastFundingRate = 0 \<rparr>"

text \<open>The \<^verbatim>\<open>SKIP\<close> object of the early exits; it has no targets and no \<^verbatim>\<open>meta\<close>.\<close>

definition skipSignal ::
  "string \<Rightarrow> dir \<Rightarrow> int \<Rightarrow> real \<Rightarrow> string list \<Rightarrow> string list \<Rightarrow> int \<Rightarrow> meta option signal" where
  "skipSignal symb d conf entryRef rs ws now =
     \<lparr> sig_id = ''SKIP|'' @ symb, symbol = symb, mode = PREVIEW, direction = d,
       confidence = conf, entryRefPrice = Some entryRef, tpPrice = None, slPrice = None,
       meta = None, reasons = rs, warnings = ws, created = now, confirmed = None \<rparr>"

definition fundingWarnings_coinapi :: "prem \<Rightarrow> int \<Rightarrow> string list" where
  "fundingWarnings_coinapi md now =
     (case nextFundingTime md of
        None \<Rightarrow> []
      | Some t \<Rightarrow> if t > 0 then fundingWarnings md now else [])"

definition evaluateIntrabarForSymbol_coinapi ::
  "env_coinapi \<Rightarrow> store \<Rightarrow> string \<Rightarrow> string \<Rightarrow> tick \<Rightarrow> ticker24 option \<Rightarrow> prem
   \<Rightarrow> string + meta option signal \<times> store" where
  "evaluateIntrabarForSymbol_coinapi ev s symb symbolId tickSize tickerDaily marketData =
     (let now = ca_now ev
      in case tickerDaily of
           None \<Rightarrow> Inr (skipSignal symb NONE 0 0 [''NO_TICKER_DATA''] [] now, s)
         | Some td \<Rightarrow>
         (case fetchKlines1h_coinapi (ca_ohlcv ev symbolId) symbolId of
            Inl err \<Rightarrow> Inl err
          | Inr krows \<Rightarrow>
          (let c = parseCandleRows_coinapi krows
           in if length (c_close c) < ATR_PERIOD + 2
              then Inr (skipSignal symb NONE 0 (lastPrice td)
                          [''INSUFFICIENT_DATA_'' @ show_nat (length (c_close c)) @ ''_candles'']
                          [] now, s)
              else
              (let ind = computeIndicatorsFromCandles (ca_lib ev) c
               in if rsi ind = None \<or> macd ind = None \<or> bb ind = None
                  then Inr (skipSignal symb NONE 0 (lastPrice td) [''INDICATORS_NULL''] [] now, s)
                  else (case atr ind of
                    None \<Rightarrow> Inr (skipSignal symb NONE 0 (lastPrice td) [''INDICATORS_NULL''] [] now, s)
                  | Some atrv \<Rightarrow>
                  (let tr = classifyTrend td ind; mom = computeMomentum ind;
                       cd = directionCandidate tr ind;
                       direction' = fst (resolveCandidate (cdir cd));
                       isReversal = snd (resolveCandidate (cdir cd))
                   in if cdir cd = NO_TRADE
                      then Inr (skipSignal symb NONE 0 (lastPrice td)
                                  [reason cd, ''TREND='' @ trend_str tr,
                                   ''MOM='' @ strength_str (strength mom), ''NO_TRADE_EDGE'']
                                  [] now, s)
                      else
                      (let conf0 = baseConfidence tr mom td;
                           lq = getLiquidationFromRedis s symb now;
                           liqAdj = applyLiquidationAdjustments direction' conf0 lq;
                           conf = adj_confidence liqAdj;
                           entry = lastPrice td
                       in if \<not> (entry > 0)
                          then Inr (skipSignal symb direction' conf 0 [''BAD_ENTRY_PRICE''] [] now, s)
                          else
                          (let warnings' = adj_warnings liqAdj @ fundingWarnings_coinapi marketData now
                           in case pickTpSlATR entry atrv direction' conf (strength mom)
                                     isReversal (intensityScore lq) (bbWidthClass ind) of
                                None \<Rightarrow> Inr (skipSignal symb direction' conf entry
                                               [''ATR_TPSL_FAILED''] warnings' now, s)
                              | Some pl \<Rightarrow>
                                (let rounded' = roundSLTP_coinapi entry (pl_slPrice pl) (pl_tpPrice pl)
                                                  tickSize direction';
                                     bucketMs = floorTimeBucket now DEDUPE_SCOPE_SECONDS;
                                     sigId = makePreviewId symb direction' bucketMs;
                                     sg = \<lparr> sig_id = sigId, symbol = symb, mode = PREVIEW,
                                            direction = direction', confidence = conf,
                                            entryRefPrice = Some entry,
                                            tpPrice = Some (r_tpPrice rounded'),
                                            slPrice = Some (r_slPrice rounded'),
                                            meta = Some \<lparr> m_atr = pl_atr pl,
                                                     m_slAtrMult = slAtrMult pl,
                                                     m_rr = rr pl, m_tickSize = tickSize \<rparr>,
                                            reasons = [reason cd, ''TREND='' @ trend_str tr,
                                                       ''MOM='' @ strength_str (strength mom),
                                                       ''ATR_TPSL'', ''TICK_ROUNDED''],
                                            warnings = warnings', created = now,
                                            confirmed = None \<rparr>;
                                     pendingObj =
                                       \<lparr> signal_id = sigId, p_direction = direction',
                                         created_ts = now, confirm_requested = False,
                                         snapshot_metrics =
                                           Some \<lparr> momentumScore = score mom,
                                                  s_bbWidthClass = bbWidthClass ind,
                                                  s_atr = atr ind,
                                                  s_lastCandleCloseTime =
                                                    lastCandleCloseTime ind \<rparr> \<rparr>;
                                     s1 = savePending s symb pendingObj now;
                                     s2 = saveLastSignal s1 symb
                                            \<lparr> ls_ts = now, ls_id = sigId, ls_mode = PREVIEW,
                                              ls_reason = None \<rparr> now
                                 in Inr (sg, s2))))))))))"

subsection \<open>The CoinAPI and CoinGecko variant: funding annotation\<close>

text \<open>
  That variant's target planner and evaluations carry no funding data. Its handler
  annotates each signal afterwards with the closure \<^verbatim>\<open>attachFundingAndMarket\<close>, which
  looks the symbol's row up in the CoinGecko derivatives list
  (\<^verbatim>\<open>pickDerivativeRowForSymbol\<close>; the row it finds, or none, is the first argument
  here), records the market and pushes the warning \<^verbatim>\<open>FUNDING_RATE_HIGH\<close> once.
  \<open>funding_rate\<close> is \<open>None\<close> when \<^verbatim>\<open>Number.isFinite(funding)\<close> is false; \<open>market\<close> is
  \<open>None\<close> when the row has none.
\<close>

record gecko_row =
  market :: "string option"
  funding_rate :: "real option"

text \<open>The \<^verbatim>\<open>meta\<close> object of that variant; an invalidated signal has the empty one.\<close>

record annotated_meta =
  am_atr :: "real option"
  am_slAtrMult :: "real option"
  am_rr :: "real option"
  price_precision :: "nat option"
  coinapi_symbol_id :: "string option"
  coingecko_market :: "string option"

definition attachFundingAndMarket :: "gecko_row option \<Rightarrow> annotated_meta signal \<Rightarrow> annotated_meta signal" where
  "attachFundingAndMarket row sg =
     (case row of
        None \<Rightarrow> sg
      | Some rw \<Rightarrow>
          (let sg1 = sg\<lparr> meta := (meta sg)\<lparr> coingecko_market :=
                          (case market rw of
                             None \<Rightarrow> None
                           | Some m \<Rightarrow> if m = [] then None else Some m) \<rparr> \<rparr>
           in case funding_rate rw of
                None \<Rightarrow> sg1
              | Some funding \<Rightarrow>
                  if \<bar>funding\<bar> \<ge> FUNDING_RATE_ABS_WARN
                  then (if ''FUNDING_RATE_HIGH'' \<in> set (warnings sg1) then sg1
                        else sg1\<lparr> warnings := warnings sg1 @ [''FUNDING_RATE_HIGH''] \<rparr>)
                  else sg1))"

subsection \<open>The CoinGecko variant: confirmation on close\<close>

text \<open>
  \<^verbatim>\<open>trade-bot.mjs\<close> takes the entry price and the 24h change from the symbol's row of the
  CoinGecko derivatives list and its candles from CoinAPI. Its \<^verbatim>\<open>computeIndicators\<close>,
  \<^verbatim>\<open>computeMomentum\<close>, \<^verbatim>\<open>directionCandidate\<close>, \<^verbatim>\<open>applyLiquidationAdjustments\<close>,
  \<^verbatim>\<open>pickTpSlATR\<close>, \<^verbatim>\<open>getLiq\<close> and store accessors are the functions above, word for
  word (\<^verbatim>\<open>computeIndicatorsFromCandles\<close> and \<^verbatim>\<open>getLiquidationFromRedis\<close> there); the ones
  that differ follow.

  The derivatives row after \<^verbatim>\<open>Number(...)\<close>: a field is \<open>None\<close> when the row has none.
\<close>

record deriv_row = gecko_row +
  price_percentage_change_24h :: "real option"
  dr_index :: "real option"
  dr_price :: "real option"

definition classifyTrend_mjs :: "deriv_row \<Rightarrow> indicators \<Rightarrow> trend" where
  "classifyTrend_mjs derivRow ind =
     (let chg = (case price_percentage_change_24h derivRow of None \<Rightarrow> 0 | Some v \<Rightarrow> v);
          base = (if chg > TREND_UP_PCT then UP else if chg < TREND_DN_PCT then DOWN else SIDE);
          s0 = (0::int);
          s1 = (if base = UP then s0 + 2 else s0);
          s2 = (if base = DOWN then s1 - 2 else s1);
          s3 = (case macd ind of
                  None \<Rightarrow> s2
                | Some m \<Rightarrow>
                    (case histogram m of
                       None \<Rightarrow> s2
                     | Some h \<Rightarrow>
                         (let a = (if h > 0 then s2 + 1 else s2)
                          in if h < 0 then a - 1 else a)));
          score = s3 + bbPos ind
      in if score \<ge> 2 then UP else if score \<le> - 2 then DOWN else SIDE)"

definition baseConfidence_mjs :: "trend \<Rightarrow> momentum \<Rightarrow> indicators \<Rightarrow> deriv_row \<Rightarrow> int" where
  "baseConfidence_mjs tr mom ind derivRow =
     (let volProxy = \<bar>case price_percentage_change_24h derivRow of None \<Rightarrow> 0 | Some v \<Rightarrow> v\<bar>;
          c0 = (50::int);
          aligned = ((tr = UP \<and> score mom > 0) \<or> (tr = DOWN \<and> score mom < 0)
                     \<or> (tr = SIDE \<and> \<bar>score mom\<bar> \<ge> 2));
          c1 = c0 + (if aligned then 10 else - 8);
          c2 = (if strength mom = STRONG then c1 + 15
                else if strength mom = MED then c1 + 8 else c1 - 5);
          c3 = (if volProxy > 5 then c2 + 8 else if volProxy > 2 then c2 + 4 else c2 - 3);
          c4 = (case atr ind of None \<Rightarrow> c3 | Some a \<Rightarrow> if a > 0 then c3 + 2 else c3)
      in clamp c4 0 100)"

text \<open>
  \<^verbatim>\<open>splitBaseQuote\<close> cuts the first quote currency of its list that ends the symbol and
  is shorter than it, and the last four characters when there is none;
  \<^verbatim>\<open>coinapiSymbolIdFor\<close> builds the CoinAPI id from the parts and the exchange id of the
  environment.
\<close>

definition splitBaseQuote :: "string \<Rightarrow> string \<times> string" where
  "splitBaseQuote symb =
     (case List.find (\<lambda>q. drop (length symb - length q) symb = q \<and> length symb > length q)
             [''USDT'', ''USDC'', ''BUSD'', ''FDUSD'', ''TUSD''] of
        Some q \<Rightarrow> (take (length symb - length q) symb, q)
      | None \<Rightarrow> (take (length symb - 4) symb, drop (length symb - 4) symb))"

definition coinapiSymbolIdFor :: "string \<Rightarrow> string \<Rightarrow> string" where
  "coinapiSymbolIdFor exchangeId symb =
     exchangeId @ ''_PERP_'' @ fst (splitBaseQuote symb) @ ''_'' @ snd (splitBaseQuote symb)"

text \<open>
  One element of the CoinAPI answer after \<^verbatim>\<open>Number(...)\<close>. \<open>volume_traded\<close> is 0 where the
  field is missing (\<^verbatim>\<open>r.volume_traded || 0\<close>); \<open>time_end\<close> is
  \<^verbatim>\<open>Date.parse(r.time_period_end || r.time_close || r.time_period_start)\<close> when that is
  finite.
\<close>

record ohlcv_mjs =
  price_open :: real
  price_high :: real
  price_low :: real
  price_close :: real
  volume_traded :: real
  time_end :: "int option"

text \<open>
  What the close evaluation of this variant reads from outside the five key families of
  the store: the indicator library, the clock, SHA-1, the exchange id, the CoinAPI
  answer for a symbol id (\<open>None\<close> when it is not an array) and the \<^verbatim>\<open>price_precision\<close> of
  the metadata \<^verbatim>\<open>getCoinapiMeta\<close> returns for a symbol. \<^verbatim>\<open>getCoinapiMeta\<close> keeps its
  answers under keys \<^verbatim>\<open>coinapi:meta:...\<close>, a family of its own that nothing else reads.
\<close>

record env_mjs =
  mj_lib :: indicator_lib
  mj_now :: int
  mj_sha1 :: "string \<Rightarrow> string"
  mj_exchange_id :: string
  mj_ohlcv :: "string \<Rightarrow> ohlcv_mjs list option"
  mj_price_precision :: "string \<Rightarrow> real option"

definition fetchOhlcv1hFromCoinapi :: "env_mjs \<Rightarrow> string \<Rightarrow> (candles \<times> string) option" where
  "fetchOhlcv1hFromCoinapi ev symb =
     (let symbolId = coinapiSymbolIdFor (mj_exchange_id ev) symb
      in case mj_ohlcv ev symbolId of
           None \<Rightarrow> None
         | Some data \<Rightarrow>
             if length data < ATR_PERIOD + 2 then None
             else Some (\<lparr> c_open = map price_open data, c_high = map price_high data,
                          c_low = map price_low data, c_close = map price_close data,
                          c_volume = map volume_traded data,
                          c_closeTime = map (\<lambda>r. case time_end r of
                                                     None \<Rightarrow> mj_now ev
                                                   | Some t \<Rightarrow> t) data \<rparr>,
                        symbolId))"

text \<open>
  \<^verbatim>\<open>roundToDecimals\<close>: \<^verbatim>\<open>Number(x.toFixed(Math.max(0, Math.min(18, Number(decimals) || 0))))\<close>;
  \<^verbatim>\<open>toFixed\<close> drops the fraction of its argument.
\<close>

definition roundToDecimals :: "real \<Rightarrow> real \<Rightarrow> real" where
  "roundToDecimals x decimals = (let d = max 0 (min 18 decimals) in toFixed x (nat \<lfloor>d\<rfloor>))"

record meta_mjs =
  mm_atr :: real
  mm_slAtrMult :: real
  mm_rr :: real
  mm_price_precision :: real
  mm_coinapi_symbol_id :: string
  mm_coingecko_market :: "string option"

definition makeConfirmedId_mjs :: "(string \<Rightarrow> string) \<Rightarrow> string \<Rightarrow> dir \<Rightarrow> int option \<Rightarrow> string" where
  "makeConfirmedId_mjs sha1 symb direction' candleCloseTimeMs =
     sha1 (''CONFIRMED|'' @ symb @ ''|'' @ dir_str direction' @ ''|''
           @ show_int_opt candleCloseTimeMs)"

definition invalidated_mjs ::
  "(string \<Rightarrow> string) \<Rightarrow> store \<Rightarrow> string \<Rightarrow> string \<Rightarrow> int
   \<Rightarrow> meta_mjs option signal option \<times> store" where
  "invalidated_mjs sha1 s symb rsn now =
     (let r = invalidate_mjs sha1 s symb rsn now in (Some (fst r), snd r))"

definition confirmOnCloseForSymbol_mjs ::
  "env_mjs \<Rightarrow> store \<Rightarrow> string \<Rightarrow> deriv_row option \<Rightarrow> meta_mjs option signal option \<times> store" where
  "confirmOnCloseForSymbol_mjs ev s symb derivRow =
     (let now = mj_now ev; sha1 = mj_sha1 ev; st = getState s symb now
      in case pending_confirm st of None \<Rightarrow> (None, s) | Some p \<Rightarrow>
         if confirm_requested p \<noteq> True then (None, s)
         else (case derivRow of
           None \<Rightarrow> invalidated_mjs sha1 s symb ''CLOSE_NO_DERIV_DATA'' now
         | Some dr \<Rightarrow>
         (let lq = getLiquidationFromRedis s symb now
          in case fetchOhlcv1hFromCoinapi ev symb of
               None \<Rightarrow> invalidated_mjs sha1 s symb ''CLOSE_NO_OHLCV'' now
             | Some ohlcv \<Rightarrow>
             (let ind = computeIndicatorsFromCandles (mj_lib ev) (fst ohlcv)
              in case rsi ind of
                   None \<Rightarrow> invalidated_mjs sha1 s symb ''CLOSE_BAD_INDICATORS'' now
                 | Some rsiv \<Rightarrow>
                 if macd ind = None \<or> bb ind = None
                 then invalidated_mjs sha1 s symb ''CLOSE_BAD_INDICATORS'' now
                 else (case atr ind of
                   None \<Rightarrow> invalidated_mjs sha1 s symb ''CLOSE_BAD_INDICATORS'' now
                 | Some atrv \<Rightarrow>
                 (let tr = classifyTrend_mjs dr ind; mom = computeMomentum ind;
                      cd = directionCandidate tr ind
                  in if cdir cd = NO_TRADE then invalidated_mjs sha1 s symb ''CLOSE_NO_TRADE'' now
                     else
                     (let directionNow = fst (resolveCandidate (cdir cd));
                          isReversalNow = snd (resolveCandidate (cdir cd))
                      in if directionNow \<noteq> p_direction p
                         then invalidated_mjs sha1 s symb ''CLOSE_DIRECTION_CHANGED'' now
                         else if isReversalNow \<and> \<not> reversalOk_mjs directionNow rsiv mom p
                         then invalidated_mjs sha1 s symb ''CLOSE_REVERSAL_NOT_CONFIRMED'' now
                         else
                         (let conf0 = baseConfidence_mjs tr mom ind dr;
                              liqAdj = applyLiquidationAdjustments directionNow conf0 lq;
                              conf = adj_confidence liqAdj
                          in if veto liqAdj then invalidated_mjs sha1 s symb ''CLOSE_LIQ_VETO'' now
                             else if conf < MIN_CONF_CONFIRMED
                             then invalidated_mjs sha1 s symb ''CLOSE_CONFIDENCE_LOW'' now
                             else
                             (case (case dr_index dr of None \<Rightarrow> dr_price dr | Some i \<Rightarrow> Some i) of
                                None \<Rightarrow> invalidated_mjs sha1 s symb ''CLOSE_BAD_ENTRY'' now
                              | Some entry \<Rightarrow>
                                if \<not> (entry > 0)
                                then invalidated_mjs sha1 s symb ''CLOSE_BAD_ENTRY'' now
                                else
                                (case pickTpSlATR entry atrv directionNow conf (strength mom)
                                        isReversalNow (intensityScore lq) (bbWidthClass ind) of
                                   None \<Rightarrow> invalidated_mjs sha1 s symb ''CLOSE_NO_ATR'' now
                                 | Some pl \<Rightarrow>
                                   (let dp = (case mj_price_precision ev symb of
                                                None \<Rightarrow> 2 | Some v \<Rightarrow> v);
                                        slR = roundToDecimals (pl_slPrice pl) dp;
                                        tpR = roundToDecimals (pl_tpPrice pl) dp;
                                        sigId = makeConfirmedId_mjs sha1 symb directionNow
                                                  (lastCandleCloseTime ind);
                                        dd = tryDedupeOrDrop s sigId now
                                    in if \<not> snd dd then (None, fst dd)
                                       else
                                       (let sg = \<lparr> sig_id = sigId, symbol = symb,
                                                   mode = CONFIRMED, direction = directionNow,
                                                   confidence = conf,
                                                   entryRefPrice = Some entry,
                                                   tpPrice = Some tpR, slPrice = Some slR,
                                                   meta = Some \<lparr> mm_atr = pl_atr pl,
                                                            mm_slAtrMult = slAtrMult pl,
                                                            mm_rr = rr pl,
                                                            mm_price_precision = dp,
                                                            mm_coinapi_symbol_id = snd ohlcv,
                                                            mm_coingecko_market = market dr \<rparr>,
                                                   reasons =
                                                     [reason cd, ''TREND='' @ trend_str tr,
                                                      ''MOM='' @ strength_str (strength mom),
                                                      ''CONFIRMED_ON_CLOSE'', ''ATR_TPSL''],
                                                   warnings = adj_warnings liqAdj,
                                                   created = created_ts p,
                                                   confirmed = Some now \<rparr>;
                                            cooldownUntil = now + COOLDOWN_CONFIRMED_MIN * 60000;
                                            s1 = saveCooldown (fst dd) symb cooldownUntil now;
                                            s2 = clearPending s1 symb;
                                            s3 = saveLastSignal s2 symb
                                                   \<lparr> ls_ts = now, ls_id = sigId,
                                                     ls_mode = CONFIRMED, ls_reason = None \<rparr> now
                                        in (Some sg, s3)))))))))))))"

subsection \<open>Concrete inputs\<close>

text \<open>
  One symbol, sixteen equal hourly candles, and an indicator library that answers with
  fixed last values: RSI as given, a positive MACD histogram, Bollinger bands
  \<open>96 / 100 / 104\<close> and ATR 2. With a 24h change of 3 percent the trend is UP; RSI 58
  gives a LONG continuation, RSI 75 a SHORT reversal candidate.
\<close>

definition demo_row :: krow where
  "demo_row = \<lparr> k_open = 100, k_high = 102, k_low = 99, k_close = 101, k_volume = 10,
                 k_closeTime = 3600000 \<rparr>"

definition demo_lib :: "real \<Rightarrow> indicator_lib" where
  "demo_lib r =
     \<lparr> RSI_calculate = (\<lambda>_. [r]),
       MACD_calculate = (\<lambda>_. [\<lparr> histogram = Some 1 \<rparr>]),
       BollingerBands_calculate = (\<lambda>_. [\<lparr> upper = 104, middle = 100, lower = 96 \<rparr>]),
       ATR_calculate = (\<lambda>_ _ _. [2]) \<rparr>"

definition demo_env :: "real \<Rightarrow> int \<Rightarrow> env" where
  "demo_env r t = \<lparr> e_lib = demo_lib r, e_now = t, e_klines = (\<lambda>_. replicate 16 demo_row) \<rparr>"

definition demo_ind :: "real \<Rightarrow> indicators" where
  "demo_ind r =
     \<lparr> rsi = Some r, macd = Some \<lparr> histogram = Some 1 \<rparr>,
       bb = Some \<lparr> upper = 104, middle = 100, lower = 96 \<rparr>, bbWidthClass = BBW_high,
       bbPos = 1, atr = Some 2, volumeRatio = 1, lastClose = Some 101,
       lastCandleCloseTime = Some 3600000 \<rparr>"

definition demo_ticker :: ticker24 where
  "demo_ticker = \<lparr> priceChangePercent = 3, highPrice = 106, lowPrice = 100, lastPrice = 101 \<rparr>"

definition demo_prem :: "int option \<Rightarrow> real \<Rightarrow> prem" where
  "demo_prem nf fr = \<lparr> markPrice = 101, nextFundingTime = nf, lastFundingRate = fr \<rparr>"

definition demo_tick :: tick where
  "demo_tick = \<lparr> tickSizeStr = ''0.10'', tickSizeNum = 0.1 \<rparr>"

definition demo_pending :: "dir \<Rightarrow> int \<Rightarrow> bool \<Rightarrow> pending" where
  "demo_pending d sc rq =
     \<lparr> signal_id = makePreviewId ''BTCUSDT'' d 7200000, p_direction = d,
       created_ts = 7200000, confirm_requested = rq,
       snapshot_metrics = Some \<lparr> momentumScore = sc, s_bbWidthClass = BBW_high,
                                s_atr = Some 2, s_lastCandleCloseTime = Some 3600000 \<rparr> \<rparr>"

text \<open>A store that holds at most a pending confirmation, a liquidation record and a
  cooldown for the symbol, each with its expiry time.\<close>

definition demo_store ::
  "(pending \<times> int) option \<Rightarrow> (liq_stored \<times> int) option \<Rightarrow> (int \<times> int) option \<Rightarrow> store" where
  "demo_store p l c =
     \<lparr> cooldowns = (\<lambda>k. if k = kCooldown ''BTCUSDT'' then c else None),
       pendings = (\<lambda>k. if k = kPending ''BTCUSDT'' then p else None),
       lastsigs = Map.empty,
       dedupes = Map.empty,
       liqs = (\<lambda>k. if k = kLiq ''BTCUSDT'' then l else None) \<rparr>"

definition demo_liq_high :: "liq_stored \<times> int" where
  "demo_liq_high =
     (\<lparr> st_intensityScore = Some 9, st_dirBias = Some 1, st_notionalSum = Some 5000000 \<rparr>,
      86400000)"

definition demo_row_coinapi :: ohlcv_row where
  "demo_row_coinapi = \<lparr> k_open = 100, k_high = 102, k_low = 99, k_close = 101, k_volume = 10,
                    k_closeTime = 3600000, time_period_start = 0 \<rparr>"

definition demo_env_coinapi :: "int \<Rightarrow> env_coinapi" where
  "demo_env_coinapi t = \<lparr> ca_lib = demo_lib 58, ca_now = t, ca_ohlcv = (\<lambda>_. replicate 16 demo_row_coinapi) \<rparr>"

definition demo_symbolId :: string where
  "demo_symbolId = ''BINANCEFTS_PERP_BTC_USDT''"

definition demo_tick_coinapi :: tick where
  "demo_tick_coinapi = \<lparr> tickSizeStr = ''0.1'', tickSizeNum = 0.1 \<rparr>"

definition demo_tm :: "string \<rightharpoonup> ticker24" where
  "demo_tm = [''BTCUSDT'' \<mapsto> demo_ticker]"

definition demo_pm :: "int option \<Rightarrow> real \<Rightarrow> (string \<rightharpoonup> prem)" where
  "demo_pm nf fr = [''BTCUSDT'' \<mapsto> demo_prem nf fr]"

text \<open>
  The same candles as CoinAPI returns them, and the symbol's row of the derivatives list
  with a 24h change of 3 percent and index price 101.
\<close>

definition demo_ohlcv_mjs :: ohlcv_mjs where
  "demo_ohlcv_mjs = \<lparr> price_open = 100, price_high = 102, price_low = 99, price_close = 101,
                      volume_traded = 10, time_end = Some 3600000 \<rparr>"

definition demo_env_mjs :: "(string \<Rightarrow> string) \<Rightarrow> real \<Rightarrow> int \<Rightarrow> env_mjs" where
  "demo_env_mjs sha r t =
     \<lparr> mj_lib = demo_lib r, mj_now = t, mj_sha1 = sha, mj_exchange_id = ''BINANCE'',
       mj_ohlcv = (\<lambda>i. if i = ''BINANCE_PERP_BTC_USDT'' then Some (replicate 16 demo_ohlcv_mjs)
                        else None),
       mj_price_precision = (\<lambda>_. None) \<rparr>"

definition demo_deriv :: deriv_row where
  "demo_deriv = \<lparr> market = Some ''Binance (Futures)'', funding_rate = Some 0.0001,
                  price_percentage_change_24h = Some 3, dr_index = Some 101,
                  dr_price = Some 101 \<rparr>"

subsection \<open>A relation used in the proofs\<close>

text \<open>Two results of an evaluation carry the same confidence, or both carry no signal.\<close>

definition same_conf ::
  "('m signal option \<times> store) \<Rightarrow> ('m signal option \<times> store) \<Rightarrow> bool" where
  "same_conf x y \<longleftrightarrow> map_option confidence (fst x) = map_option confidence (fst y)"

subsection \<open>Properties of the scorer, the adjuster and the planner\<close>

lemma clamp_bounds: "a \<le> b \<Longrightarrow> a \<le> clamp x a b \<and> clamp x a b \<le> b"
  by (simp add: clamp_def)

text \<open>
  Claim C7. For every trend, momentum profile, ticker (the volatility input) and
  liquidation snapshot, the confidence lies in \<open>[0, 100]\<close> after \<open>baseConfidence\<close>, and
  for every direction and incoming confidence it lies in \<open>[0, 100]\<close> after
  \<open>applyLiquidationAdjustments\<close>.
\<close>

theorem confidence_in_range:
  "0 \<le> baseConfidence tr mom t \<and> baseConfidence tr mom t \<le> 100
   \<and> 0 \<le> adj_confidence (applyLiquidationAdjustments d conf l)
   \<and> adj_confidence (applyLiquidationAdjustments d conf l) \<le> 100"
proof -
  have b: "0 \<le> baseConfidence tr mom t \<and> baseConfidence tr mom t \<le> 100"
    unfolding baseConfidence_def Let_def by (rule clamp_bounds) simp
  have a: "0 \<le> adj_confidence (applyLiquidationAdjustments d conf l)
           \<and> adj_confidence (applyLiquidationAdjustments d conf l) \<le> 100"
    unfolding applyLiquidationAdjustments_def Let_def liq_adj.simps
    by (rule clamp_bounds) simp
  from b a show ?thesis by blast
qed

text \<open>
  Claim C8. With entry 100, ATR 2, direction LONG, confidence 80, STRONG momentum, no
  reversal, liquidation intensity 0 and a mid Bollinger width, the planner picks the stop
  multiplier 2.0 and the risk/reward ratio 2.0; the stop distance is
  \<open>max (2.0 * 2) (100 * 10 / 10000) = 4\<close> and the stop is 96; the target distance is
  \<open>max (2.0 * 4) (100 * 15 / 10000) = 8\<close> and the target is 108.
\<close>

theorem pickTpSlATR_example:
  "chooseSLMult 80 STRONG False 0 BBW_mid = 2.0
   \<and> chooseRR 80 STRONG = 2.0
   \<and> max (2.0 * 2) (bpsToDist 100 MIN_SL_BPS) = (4::real)
   \<and> max (2.0 * 4) (bpsToDist 100 MIN_TP_BPS) = (8::real)
   \<and> pickTpSlATR 100 2 LONG 80 STRONG False 0 BBW_mid
       = Some \<lparr> pl_slPrice = 96, pl_tpPrice = 108, pl_atr = 2, slAtrMult = 2.0, rr = 2.0 \<rparr>"
  by (simp add: pickTpSlATR_def chooseSLMult_def chooseRR_def bpsToDist_def CONFIG_defs Let_def)

subsection \<open>Facts about the store and the two evaluations\<close>

lemma tryDedupe_fail:
  "\<not> snd (tryDedupeOrDrop s i now) \<Longrightarrow> fst (tryDedupeOrDrop s i now) = s"
  by (auto simp: tryDedupeOrDrop_def redis_set_nx_def Let_def split: if_splits)

lemma cooldowns_tryDedupe [simp]: "cooldowns (fst (tryDedupeOrDrop s i now)) = cooldowns s"
  by (simp add: tryDedupeOrDrop_def Let_def)

lemma invalidate_fields [simp]:
  "mode (fst (invalidate s symb r now)) = INVALIDATED"
  "direction (fst (invalidate s symb r now)) = NONE"
  "confidence (fst (invalidate s symb r now)) = 0"
  "entryRefPrice (fst (invalidate s symb r now)) = None"
  "tpPrice (fst (invalidate s symb r now)) = None"
  "slPrice (fst (invalidate s symb r now)) = None"
  "reasons (fst (invalidate s symb r now)) = [r]"
  "sig_id (fst (invalidate s symb r now))
     = ''INVALID|'' @ symb @ ''|'' @ show_int (floorTimeBucket now 60) @ ''|'' @ r"
  by (simp_all add: invalidate_def Let_def)

lemma invalidated_fst [simp]:
  "fst (invalidated s symb r now) = Some (fst (invalidate s symb r now))"
  by (simp add: invalidated_def)

lemma invalidated_snd [simp]:
  "snd (invalidated s symb r now) = snd (invalidate s symb r now)"
  by (simp add: invalidated_def)

lemma veto_iff:
  "veto (applyLiquidationAdjustments d conf l)
     \<longleftrightarrow> intensityScore l \<ge> 8 \<and> ((d = LONG \<and> dirBias l = 1) \<or> (d = SHORT \<and> dirBias l = - 1))"
  by (auto simp: applyLiquidationAdjustments_def Let_def LIQ_THR_HIGH_def)

lemma veto_conf_indep:
  "veto (applyLiquidationAdjustments d conf l) = veto (applyLiquidationAdjustments d conf' l)"
  by (simp add: veto_iff)

lemma adj_warnings_no_funding:
  "''FUNDING_SOON_HIGH_RATE'' \<notin> set (adj_warnings (applyLiquidationAdjustments d conf l))"
  by (simp add: applyLiquidationAdjustments_def Let_def)

lemma minutesTo_le_30: "minutesTo t now \<le> 30 \<longleftrightarrow> t - now < 31 * 60000"
  unfolding minutesTo_def by linarith

lemma fundingWarnings_iff:
  "''FUNDING_SOON_HIGH_RATE'' \<in> set (fundingWarnings pr now)
     \<longleftrightarrow> (\<exists>t. nextFundingTime pr = Some t \<and> t - now < 31 * 60000
              \<and> \<bar>lastFundingRate pr\<bar> \<ge> 0.0002)"
  by (cases "nextFundingTime pr")
     (simp_all add: fundingWarnings_def FUNDING_WARN_MINUTES_def FUNDING_RATE_ABS_WARN_def
        minutesTo_le_30)

lemma same_bucket_within_ttl:
  "floorTimeBucket a DEDUPE_SCOPE_SECONDS = floorTimeBucket b DEDUPE_SCOPE_SECONDS
   \<Longrightarrow> a < b + DEDUPE_TTL_SECONDS * 1000"
  unfolding floorTimeBucket_def Let_def DEDUPE_SCOPE_SECONDS_def DEDUPE_TTL_SECONDS_def
  by presburger

lemma cooldown_after_save:
  "now' < now + TTL_COOLDOWN_SEC * 1000 \<Longrightarrow>
   cooldown_until_ts
     (getState (saveLastSignal (clearPending (saveCooldown s symb c now) symb) symb l now)
        symb now') = c"
  by (simp add: getState_def saveLastSignal_def clearPending_def saveCooldown_def
      redis_get_def redis_set_def)

text \<open>What a close evaluation that returns a signal has done.\<close>

lemma close_confirmed_D:
  fixes ev s symb tk tm pm
  defines "ind \<equiv> computeIndicatorsFromCandles (e_lib ev) (parseCandleRows (e_klines ev symb))"
  assumes "confirmOnCloseForSymbol ev s symb tk tm pm = (Some sg, s')"
    and "mode sg = CONFIRMED"
  shows "\<exists>p tkr pr. pending_confirm (getState s symb (e_now ev)) = Some p \<and> confirm_requested p
           \<and> tm symb = Some tkr \<and> pm symb = Some pr
           \<and> direction sg = p_direction p
           \<and> warnings sg
               = adj_warnings (applyLiquidationAdjustments (direction sg)
                   (baseConfidence (classifyTrend tkr ind) (computeMomentum ind) tkr)
                   (getLiquidationFromRedis s symb (e_now ev)))
                 @ fundingWarnings pr (e_now ev)
           \<and> s' = saveLastSignal (clearPending (saveCooldown
                     (fst (tryDedupeOrDrop s (sig_id sg) (e_now ev))) symb
                     (e_now ev + COOLDOWN_CONFIRMED_MIN * 60000) (e_now ev)) symb) symb
                     \<lparr> ls_ts = e_now ev, ls_id = sig_id sg, ls_mode = CONFIRMED,
                       ls_reason = None \<rparr> (e_now ev)"
  using assms
  by (auto simp: confirmOnCloseForSymbol_def Let_def invalidated_def
      split: option.splits if_splits)

lemma close_invalidated_D:
  assumes "confirmOnCloseForSymbol ev s symb tk tm pm = (Some sg, s')"
    and "mode sg = INVALIDATED"
  shows "\<exists>r. (sg, s') = invalidate s symb r (e_now ev)"
  using assms
  by (auto simp: confirmOnCloseForSymbol_def Let_def invalidated_def
      split: option.splits if_splits)


lemma close_noop_I:
  assumes "\<And>p. pending_confirm (getState s symb (e_now ev)) = Some p \<Longrightarrow> \<not> confirm_requested p"
  shows "confirmOnCloseForSymbol ev s symb tk tm pm = (None, s)"
  using assms by (auto simp: confirmOnCloseForSymbol_def Let_def split: option.splits)

lemma close_direction_changed_I:
  fixes ev s symb tk tm pm
  defines "ind \<equiv> computeIndicatorsFromCandles (e_lib ev) (parseCandleRows (e_klines ev symb))"
  assumes "pending_confirm (getState s symb (e_now ev)) = Some p" "confirm_requested p"
      and "tm symb = Some tkr" "pm symb = Some pr"
      and "\<not> length (c_close (parseCandleRows (e_klines ev symb))) < ATR_PERIOD + 2"
      and "rsi ind \<noteq> None" "macd ind \<noteq> None" "bb ind \<noteq> None" "atr ind \<noteq> None"
      and "cdir (directionCandidate (classifyTrend tkr ind) ind) \<noteq> NO_TRADE"
      and "fst (resolveCandidate (cdir (directionCandidate (classifyTrend tkr ind) ind)))
             \<noteq> p_direction p"
  shows "confirmOnCloseForSymbol ev s symb tk tm pm
           = invalidated s symb ''CLOSE_DIRECTION_CHANGED'' (e_now ev)"
  using assms by (auto simp: confirmOnCloseForSymbol_def Let_def)


lemma close_veto_I:
  fixes ev s symb tk tm pm
  defines "ind \<equiv> computeIndicatorsFromCandles (e_lib ev) (parseCandleRows (e_klines ev symb))"
  assumes "pending_confirm (getState s symb (e_now ev)) = Some p" "confirm_requested p"
      and "tm symb = Some tkr" "pm symb = Some pr"
      and "\<not> length (c_close (parseCandleRows (e_klines ev symb))) < ATR_PERIOD + 2"
      and "rsi ind = Some r" "macd ind \<noteq> None" "bb ind \<noteq> None" "atr ind \<noteq> None"
      and "cdir (directionCandidate (classifyTrend tkr ind) ind) \<noteq> NO_TRADE"
      and "fst (resolveCandidate (cdir (directionCandidate (classifyTrend tkr ind) ind)))
             = p_direction p"
      and "snd (resolveCandidate (cdir (directionCandidate (classifyTrend tkr ind) ind)))
             \<Longrightarrow> reversalOk (p_direction p) r (computeMomentum ind) p"
      and "veto (applyLiquidationAdjustments (p_direction p)
                    (baseConfidence (classifyTrend tkr ind) (computeMomentum ind) tkr)
                    (getLiquidationFromRedis s symb (e_now ev)))"
  shows "confirmOnCloseForSymbol ev s symb tk tm pm
           = invalidated s symb ''CLOSE_LIQ_VETO'' (e_now ev)"
  using assms by (auto simp: confirmOnCloseForSymbol_def Let_def)

lemma close_veto_mode:
  fixes ev s symb tk tm pm
  defines "ind \<equiv> computeIndicatorsFromCandles (e_lib ev) (parseCandleRows (e_klines ev symb))"
  assumes "pending_confirm (getState s symb (e_now ev)) = Some p" "confirm_requested p"
      and "tm symb = Some tkr" "pm symb = Some pr"
      and "veto (applyLiquidationAdjustments
                    (fst (resolveCandidate (cdir (directionCandidate (classifyTrend tkr ind) ind))))
                    conf (getLiquidationFromRedis s symb (e_now ev)))"
  shows "\<exists>sg. fst (confirmOnCloseForSymbol ev s symb tk tm pm) = Some sg \<and> mode sg = INVALIDATED"
proof -
  have "veto (applyLiquidationAdjustments
                (fst (resolveCandidate (cdir (directionCandidate (classifyTrend tkr ind) ind))))
                (baseConfidence (classifyTrend tkr ind) (computeMomentum ind) tkr)
                (getLiquidationFromRedis s symb (e_now ev)))"
    using assms(6) veto_conf_indep by blast
  with assms(2-5) show ?thesis
    unfolding ind_def
    by (auto simp: confirmOnCloseForSymbol_def Let_def split: option.splits)
qed

text \<open>The same for the intrabar evaluation.\<close>

lemma intrabar_cooldown_gate:
  "e_now ev < cooldown_until_ts (getState s symb (e_now ev))
   \<Longrightarrow> evaluateIntrabarForSymbol ev s symb tk tm pm = (None, s)"
  by (simp add: evaluateIntrabarForSymbol_def Let_def)

lemma intrabar_preview_D:
  fixes ev s symb tk tm pm
  defines "ind \<equiv> computeIndicatorsFromCandles (e_lib ev) (parseCandleRows (e_klines ev symb))"
  assumes "evaluateIntrabarForSymbol ev s symb tk tm pm = (Some sg, s')"
  shows "\<exists>tkr pr. tm symb = Some tkr \<and> pm symb = Some pr \<and> mode sg = PREVIEW
           \<and> direction sg
               = fst (resolveCandidate (cdir (directionCandidate (classifyTrend tkr ind) ind)))
           \<and> sig_id sg = makePreviewId symb (direction sg)
                            (floorTimeBucket (e_now ev) DEDUPE_SCOPE_SECONDS)
           \<and> redis_get (dedupes s) (kDedupe (sig_id sg)) (e_now ev) = None
           \<and> dedupes s'
               = redis_set (dedupes s) (kDedupe (sig_id sg)) 1 DEDUPE_TTL_SECONDS (e_now ev)
           \<and> cooldowns s' = cooldowns s \<and> liqs s' = liqs s
           \<and> \<not> e_now ev < cooldown_until_ts (getState s symb (e_now ev))
           \<and> confidence sg
               = adj_confidence (applyLiquidationAdjustments (direction sg)
                   (baseConfidence (classifyTrend tkr ind) (computeMomentum ind) tkr)
                   (getLiquidationFromRedis s symb (e_now ev)))
           \<and> warnings sg
               = adj_warnings (applyLiquidationAdjustments (direction sg)
                   (baseConfidence (classifyTrend tkr ind) (computeMomentum ind) tkr)
                   (getLiquidationFromRedis s symb (e_now ev)))
                 @ fundingWarnings pr (e_now ev)"
  using assms
  by (auto simp: evaluateIntrabarForSymbol_def Let_def tryDedupeOrDrop_def redis_set_nx_def
        savePending_def saveLastSignal_def
      split: option.splits if_splits)

lemma intrabar_suppressed_I:
  fixes ev s symb tk tm pm
  defines "ind \<equiv> computeIndicatorsFromCandles (e_lib ev) (parseCandleRows (e_klines ev symb))"
  assumes "\<And>tkr. tm symb = Some tkr \<Longrightarrow>
            redis_get (dedupes s)
              (kDedupe (makePreviewId symb
                 (fst (resolveCandidate (cdir (directionCandidate (classifyTrend tkr ind) ind))))
                 (floorTimeBucket (e_now ev) DEDUPE_SCOPE_SECONDS))) (e_now ev) \<noteq> None"
  shows "evaluateIntrabarForSymbol ev s symb tk tm pm = (None, s)"
  using assms
  by (auto simp: evaluateIntrabarForSymbol_def Let_def tryDedupeOrDrop_def redis_set_nx_def
      split: option.splits)

lemma intrabar_veto_I:
  fixes ev s symb tk tm pm
  defines "ind \<equiv> computeIndicatorsFromCandles (e_lib ev) (parseCandleRows (e_klines ev symb))"
  assumes "\<And>tkr. tm symb = Some tkr \<Longrightarrow>
             veto (applyLiquidationAdjustments
                    (fst (resolveCandidate (cdir (directionCandidate (classifyTrend tkr ind) ind))))
                    conf (getLiquidationFromRedis s symb (e_now ev)))"
  shows "evaluateIntrabarForSymbol ev s symb tk tm pm = (None, s)"
proof -
  have "\<And>tkr. tm symb = Some tkr \<Longrightarrow>
          veto (applyLiquidationAdjustments
                 (fst (resolveCandidate (cdir (directionCandidate (classifyTrend tkr ind) ind))))
                 (baseConfidence (classifyTrend tkr ind) (computeMomentum ind) tkr)
                 (getLiquidationFromRedis s symb (e_now ev)))"
    using assms(2) veto_conf_indep by blast
  then show ?thesis
    unfolding ind_def
    by (auto simp: evaluateIntrabarForSymbol_def Let_def split: option.splits)
qed

text \<open>
  Two runs that differ only in the funding fields of the premium index entry take the
  same branches; the relation below is pushed through the common structure of the two
  unfolded definitions.
\<close>

lemma same_conf_refl: "same_conf x x"
  by (simp add: same_conf_def)

lemma same_conf_if:
  "(c \<Longrightarrow> same_conf a a') \<Longrightarrow> (\<not> c \<Longrightarrow> same_conf b b')
   \<Longrightarrow> same_conf (if c then a else b) (if c then a' else b')"
  by simp

lemma same_conf_case_option:
  "same_conf a a' \<Longrightarrow> (\<And>x. same_conf (f x) (f' x))
   \<Longrightarrow> same_conf (case v of None \<Rightarrow> a | Some x \<Rightarrow> f x)
                 (case v of None \<Rightarrow> a' | Some x \<Rightarrow> f' x)"
  by (cases v) simp_all

lemma same_conf_Let: "(\<And>x. same_conf (f x) (g x)) \<Longrightarrow> same_conf (Let t f) (Let t g)"
  by simp

lemma close_funding_frame:
  assumes "pm symb = Some pr" "pm' symb = Some pr'" "markPrice pr' = markPrice pr"
  shows "map_option confidence (fst (confirmOnCloseForSymbol ev s symb tk tm pm))
         = map_option confidence (fst (confirmOnCloseForSymbol ev s symb tk tm pm'))"
proof -
  have "same_conf (confirmOnCloseForSymbol ev s symb tk tm pm)
                  (confirmOnCloseForSymbol ev s symb tk tm pm')"
    unfolding confirmOnCloseForSymbol_def assms option.case
    by (intro same_conf_refl same_conf_Let same_conf_if same_conf_case_option)
       (simp add: same_conf_def Let_def split: option.splits)
  then show ?thesis by (simp add: same_conf_def)
qed

lemma intrabar_funding_frame:
  assumes "pm symb = Some pr" "pm' symb = Some pr'" "markPrice pr' = markPrice pr"
  shows "map_option confidence (fst (evaluateIntrabarForSymbol ev s symb tk tm pm))
         = map_option confidence (fst (evaluateIntrabarForSymbol ev s symb tk tm pm'))"
proof -
  have "same_conf (evaluateIntrabarForSymbol ev s symb tk tm pm)
                  (evaluateIntrabarForSymbol ev s symb tk tm pm')"
    unfolding evaluateIntrabarForSymbol_def assms option.case
    by (intro same_conf_refl same_conf_Let same_conf_if same_conf_case_option)
       (simp add: same_conf_def Let_def split: option.splits)
  then show ?thesis by (simp add: same_conf_def)
qed

subsection \<open>The concrete inputs, evaluated stage by stage\<close>

lemma demo_now [simp]: "e_now (demo_env r t) = t"
  by (simp add: demo_env_def)

lemma demo_len [simp]: "length (c_close (parseCandleRows (e_klines (demo_env r t) symb))) = 16"
  by (simp add: demo_env_def parseCandleRows_def)

lemma demo_ind_computed [simp]:
  "computeIndicatorsFromCandles (e_lib (demo_env r t))
     (parseCandleRows (e_klines (demo_env r t) symb)) = demo_ind r"
  by (simp add: demo_env_def computeIndicatorsFromCandles_def parseCandleRows_def demo_lib_def
      demo_row_def demo_ind_def lastOrNull_def Let_def sum_list_replicate)

lemma demo_ind_fields [simp]:
  "rsi (demo_ind r) = Some r"
  "macd (demo_ind r) = Some \<lparr> histogram = Some 1 \<rparr>"
  "bb (demo_ind r) = Some \<lparr> upper = 104, middle = 100, lower = 96 \<rparr>"
  "atr (demo_ind r) = Some 2"
  "bbWidthClass (demo_ind r) = BBW_high"
  "lastCandleCloseTime (demo_ind r) = Some 3600000"
  by (simp_all add: demo_ind_def)

lemma demo_inputs [simp]:
  "demo_tm ''BTCUSDT'' = Some demo_ticker"
  "demo_pm nf fr ''BTCUSDT'' = Some (demo_prem nf fr)"
  "markPrice (demo_prem nf fr) = 101"
  "nextFundingTime (demo_prem nf fr) = nf"
  "lastFundingRate (demo_prem nf fr) = fr"
  by (simp_all add: demo_tm_def demo_pm_def demo_prem_def)

lemma demo_trend [simp]: "classifyTrend demo_ticker (demo_ind r) = UP"
  by (simp add: classifyTrend_def demo_ind_def demo_ticker_def CONFIG_defs)

lemma demo_momentum [simp]:
  "computeMomentum (demo_ind 58) = \<lparr> score = 2, strength = MED \<rparr>"
  "computeMomentum (demo_ind 75) = \<lparr> score = 3, strength = MED \<rparr>"
  by (simp_all add: computeMomentum_def demo_ind_def)

lemma demo_candidate [simp]:
  "directionCandidate UP (demo_ind 58) = \<lparr> cdir = LONG, reason = ''UPTREND_RSI_OK'' \<rparr>"
  "directionCandidate UP (demo_ind 75)
     = \<lparr> cdir = SHORT_CANDIDATE, reason = ''RSI_OVERBOUGHT_IN_UPTREND'' \<rparr>"
  by (simp_all add: directionCandidate_def)

lemma demo_resolve [simp]:
  "resolveCandidate LONG = (LONG, False)"
  "resolveCandidate SHORT_CANDIDATE = (SHORT, True)"
  by (simp_all add: resolveCandidate_def)

lemma demo_confidence [simp]:
  "baseConfidence UP \<lparr> score = 2, strength = MED \<rparr> demo_ticker = 76"
  "baseConfidence UP \<lparr> score = 3, strength = MED \<rparr> demo_ticker = 76"
  by (simp_all add: baseConfidence_def demo_ticker_def clamp_def)

lemma demo_state [simp]:
  "getState (demo_store p l c) ''BTCUSDT'' t =
     \<lparr> cooldown_until_ts = (case c of None \<Rightarrow> 0 | Some (v, e) \<Rightarrow> if t < e then v else 0),
       pending_confirm = (case p of None \<Rightarrow> None | Some (v, e) \<Rightarrow> if t < e then Some v else None),
       last_signal = None \<rparr>"
  by (simp add: getState_def demo_store_def redis_get_def split: option.splits)

lemma demo_liq [simp]:
  "getLiquidationFromRedis (demo_store p None c) ''BTCUSDT'' t
     = \<lparr> intensityScore = 0, dirBias = 0, notionalSum = 0 \<rparr>"
  "t < 86400000 \<Longrightarrow> getLiquidationFromRedis (demo_store p (Some demo_liq_high) c) ''BTCUSDT'' t
     = \<lparr> intensityScore = 9, dirBias = 1, notionalSum = 5000000 \<rparr>"
  by (simp_all add: getLiquidationFromRedis_def demo_store_def redis_get_def demo_liq_high_def)

lemma demo_dedupe [simp]:
  "tryDedupeOrDrop (demo_store p l c) i t
     = ((demo_store p l c)\<lparr> dedupes := [kDedupe i \<mapsto> (1, t + 120000)] \<rparr>, True)"
  by (simp add: tryDedupeOrDrop_def redis_set_nx_def redis_set_def redis_get_def
      demo_store_def DEDUPE_TTL_SECONDS_def)

lemma demo_adj [simp]:
  "applyLiquidationAdjustments d 76 \<lparr> intensityScore = 0, dirBias = 0, notionalSum = 0 \<rparr>
     = \<lparr> adj_confidence = 76, veto = False, adj_warnings = [] \<rparr>"
  by (simp add: applyLiquidationAdjustments_def CONFIG_defs clamp_def)

lemma demo_plan [simp]:
  "pickTpSlATR 101 2 LONG 76 MED False 0 BBW_high
     = Some \<lparr> pl_slPrice = 96, pl_tpPrice = 108.5, pl_atr = 2, slAtrMult = 2.5, rr = 1.5 \<rparr>"
  "pickTpSlATR 101 2 SHORT 76 MED True 0 BBW_high
     = Some \<lparr> pl_slPrice = 106, pl_tpPrice = 93.5, pl_atr = 2, slAtrMult = 2.5, rr = 1.5 \<rparr>"
  by (simp_all add: pickTpSlATR_def chooseSLMult_def chooseRR_def bpsToDist_def CONFIG_defs)

lemma demo_pending_fields [simp]:
  "p_direction (demo_pending d sc rq) = d"
  "confirm_requested (demo_pending d sc rq) = rq"
  "snapshot_metrics (demo_pending d sc rq)
     = Some \<lparr> momentumScore = sc, s_bbWidthClass = BBW_high, s_atr = Some 2,
              s_lastCandleCloseTime = Some 3600000 \<rparr>"
  by (simp_all add: demo_pending_def)

text \<open>A preview at 02:00:00, and a confirmation on close at 02:30:00 after a request.\<close>

lemma demo_preview_run:
  "map_option (\<lambda>g. (mode g, direction g, confidence g, sig_id g, warnings g))
     (fst (evaluateIntrabarForSymbol (demo_env 58 7200000) (demo_store None None None)
             ''BTCUSDT'' demo_tick demo_tm (demo_pm nf fr)))
   = Some (PREVIEW, LONG, 76, makePreviewId ''BTCUSDT'' LONG 7200000,
           fundingWarnings (demo_prem nf fr) 7200000)"
  by (simp add: evaluateIntrabarForSymbol_def Let_def MIN_CONF_SHOW_def ATR_PERIOD_def
      floorTimeBucket_def DEDUPE_SCOPE_SECONDS_def)

lemma demo_confirm_run:
  "map_option (\<lambda>g. (mode g, direction g, confidence g, warnings g))
     (fst (confirmOnCloseForSymbol (demo_env 58 9000000)
             (demo_store (Some (demo_pending LONG 2 True, 14400000)) None None)
             ''BTCUSDT'' demo_tick demo_tm (demo_pm nf fr)))
   = Some (CONFIRMED, LONG, 76, fundingWarnings (demo_prem nf fr) 9000000)"
  by (simp add: confirmOnCloseForSymbol_def Let_def MIN_CONF_CONFIRMED_def ATR_PERIOD_def
      reversalOk_def)

subsection \<open>The confirmation state machine\<close>

text \<open>
  Claim C3. A close-confirmation evaluation returns a CONFIRMED signal for a symbol only
  if the symbol has a live PendingConfirmation whose \<open>confirm_requested\<close> is true; when
  there is no such record the evaluation returns none and leaves the store as it was.
  \<open>userRequestConfirm\<close> on a symbol without a live PendingConfirmation returns
  \<open>{ok: false, reason: "NO_PENDING_PREVIEW"}\<close>. A record is live while its key has not
  expired, which is what \<open>getState\<close> reads.
\<close>

theorem close_confirmation_requires_request:
  "(confirmOnCloseForSymbol ev s symb tk tm pm = (Some sg, s') \<and> mode sg = CONFIRMED
      \<longrightarrow> (\<exists>p. pending_confirm (getState s symb (e_now ev)) = Some p \<and> confirm_requested p))
   \<and> ((\<forall>p. pending_confirm (getState s symb (e_now ev)) = Some p \<longrightarrow> \<not> confirm_requested p)
      \<longrightarrow> confirmOnCloseForSymbol ev s symb tk tm pm = (None, s))
   \<and> (pending_confirm (getState s symb now) = None
      \<longrightarrow> userRequestConfirm s symb now
            = (\<lparr> ok = False, cr_reason = Some ''NO_PENDING_PREVIEW'' \<rparr>, s))"
proof (intro conjI impI)
  assume "confirmOnCloseForSymbol ev s symb tk tm pm = (Some sg, s') \<and> mode sg = CONFIRMED"
  then show "\<exists>p. pending_confirm (getState s symb (e_now ev)) = Some p \<and> confirm_requested p"
    using close_confirmed_D [of ev s symb tk tm pm sg s'] by blast
next
  assume "\<forall>p. pending_confirm (getState s symb (e_now ev)) = Some p \<longrightarrow> \<not> confirm_requested p"
  then show "confirmOnCloseForSymbol ev s symb tk tm pm = (None, s)"
    by (intro close_noop_I) blast
next
  assume "pending_confirm (getState s symb now) = None"
  then show "userRequestConfirm s symb now
            = (\<lparr> ok = False, cr_reason = Some ''NO_PENDING_PREVIEW'' \<rparr>, s)"
    by (simp add: userRequestConfirm_def)
qed

theorem close_confirmation_requires_request_witness:
  "(\<exists>sg s'. confirmOnCloseForSymbol (demo_env 58 9000000)
               (demo_store (Some (demo_pending LONG 2 True, 14400000)) None None)
               ''BTCUSDT'' demo_tick demo_tm (demo_pm None 0) = (Some sg, s')
            \<and> mode sg = CONFIRMED)
   \<and> (\<exists>p. pending_confirm
             (getState (demo_store (Some (demo_pending LONG 2 True, 14400000)) None None)
                ''BTCUSDT'' 9000000) = Some p \<and> confirm_requested p)
   \<and> confirmOnCloseForSymbol (demo_env 58 9000000)
        (demo_store (Some (demo_pending LONG 2 False, 14400000)) None None)
        ''BTCUSDT'' demo_tick demo_tm (demo_pm None 0)
      = (None, demo_store (Some (demo_pending LONG 2 False, 14400000)) None None)
   \<and> userRequestConfirm (demo_store None None None) ''BTCUSDT'' 9000000
      = (\<lparr> ok = False, cr_reason = Some ''NO_PENDING_PREVIEW'' \<rparr>, demo_store None None None)"
proof -
  obtain sg s' where run:
    "confirmOnCloseForSymbol (demo_env 58 9000000)
       (demo_store (Some (demo_pending LONG 2 True, 14400000)) None None)
       ''BTCUSDT'' demo_tick demo_tm (demo_pm None 0) = (Some sg, s')"
    "mode sg = CONFIRMED"
    using demo_confirm_run [of None 0]
    by (cases "confirmOnCloseForSymbol (demo_env 58 9000000)
                 (demo_store (Some (demo_pending LONG 2 True, 14400000)) None None)
                 ''BTCUSDT'' demo_tick demo_tm (demo_pm None 0)") auto
  from run
    close_confirmation_requires_request
      [where ev = "demo_env 58 9000000"
         and s = "demo_store (Some (demo_pending LONG 2 True, 14400000)) None None"
         and symb = "''BTCUSDT''" and tk = demo_tick and tm = demo_tm and pm = "demo_pm None 0"
         and sg = sg and s' = s']
  have a: "\<exists>p. pending_confirm
             (getState (demo_store (Some (demo_pending LONG 2 True, 14400000)) None None)
                ''BTCUSDT'' 9000000) = Some p \<and> confirm_requested p"
    by simp
  from close_confirmation_requires_request
      [where ev = "demo_env 58 9000000"
         and s = "demo_store (Some (demo_pending LONG 2 False, 14400000)) None None"
         and symb = "''BTCUSDT''" and tk = demo_tick and tm = demo_tm and pm = "demo_pm None 0"]
  have b: "confirmOnCloseForSymbol (demo_env 58 9000000)
        (demo_store (Some (demo_pending LONG 2 False, 14400000)) None None)
        ''BTCUSDT'' demo_tick demo_tm (demo_pm None 0)
      = (None, demo_store (Some (demo_pending LONG 2 False, 14400000)) None None)"
    by simp
  from close_confirmation_requires_request
      [where s = "demo_store None None None" and symb = "''BTCUSDT''" and now = 9000000]
  have c: "userRequestConfirm (demo_store None None None) ''BTCUSDT'' 9000000
      = (\<lparr> ok = False, cr_reason = Some ''NO_PENDING_PREVIEW'' \<rparr>, demo_store None None None)"
    by simp
  from run a b c show ?thesis by blast
qed

text \<open>
  Claim C4. Every CONFIRMED signal a close-confirmation evaluation returns has the
  direction recorded in the symbol's PendingConfirmation. When the evaluation gets as far
  as a candidate (pending and requested, ticker and premium entry present, at least 16
  candles, no indicator missing, not NO_TRADE) and the candidate's direction differs from
  the pending one, it returns an INVALIDATED signal with the single reason
  \<open>CLOSE_DIRECTION_CHANGED\<close> and direction \<open>NONE\<close>.
\<close>

theorem confirmed_direction_is_pending_direction:
  fixes ev s symb tk tm pm
  defines "ind \<equiv> computeIndicatorsFromCandles (e_lib ev) (parseCandleRows (e_klines ev symb))"
  shows "(confirmOnCloseForSymbol ev s symb tk tm pm = (Some sg, s') \<and> mode sg = CONFIRMED
            \<longrightarrow> (\<exists>p. pending_confirm (getState s symb (e_now ev)) = Some p
                      \<and> direction sg = p_direction p))
         \<and> (pending_confirm (getState s symb (e_now ev)) = Some p \<and> confirm_requested p
             \<and> tm symb = Some tkr \<and> pm symb = Some pr
             \<and> \<not> length (c_close (parseCandleRows (e_klines ev symb))) < ATR_PERIOD + 2
             \<and> rsi ind \<noteq> None \<and> macd ind \<noteq> None \<and> bb ind \<noteq> None \<and> atr ind \<noteq> None
             \<and> cdir (directionCandidate (classifyTrend tkr ind) ind) \<noteq> NO_TRADE
             \<and> fst (resolveCandidate (cdir (directionCandidate (classifyTrend tkr ind) ind)))
                 \<noteq> p_direction p
            \<longrightarrow> (\<exists>ig. fst (confirmOnCloseForSymbol ev s symb tk tm pm) = Some ig
                      \<and> mode ig = INVALIDATED \<and> reasons ig = [''CLOSE_DIRECTION_CHANGED'']
                      \<and> direction ig = NONE))"
proof (intro conjI impI)
  assume "confirmOnCloseForSymbol ev s symb tk tm pm = (Some sg, s') \<and> mode sg = CONFIRMED"
  then show "\<exists>p. pending_confirm (getState s symb (e_now ev)) = Some p
                 \<and> direction sg = p_direction p"
    using close_confirmed_D [of ev s symb tk tm pm sg s'] by blast
next
  assume h: "pending_confirm (getState s symb (e_now ev)) = Some p \<and> confirm_requested p
             \<and> tm symb = Some tkr \<and> pm symb = Some pr
             \<and> \<not> length (c_close (parseCandleRows (e_klines ev symb))) < ATR_PERIOD + 2
             \<and> rsi ind \<noteq> None \<and> macd ind \<noteq> None \<and> bb ind \<noteq> None \<and> atr ind \<noteq> None
             \<and> cdir (directionCandidate (classifyTrend tkr ind) ind) \<noteq> NO_TRADE
             \<and> fst (resolveCandidate (cdir (directionCandidate (classifyTrend tkr ind) ind)))
                 \<noteq> p_direction p"
  have "confirmOnCloseForSymbol ev s symb tk tm pm
           = invalidated s symb ''CLOSE_DIRECTION_CHANGED'' (e_now ev)"
    by (rule close_direction_changed_I [where p = p and tkr = tkr and pr = pr])
       (use h in \<open>simp_all add: ind_def\<close>)
  then show "\<exists>ig. fst (confirmOnCloseForSymbol ev s symb tk tm pm) = Some ig
                      \<and> mode ig = INVALIDATED \<and> reasons ig = [''CLOSE_DIRECTION_CHANGED'']
                      \<and> direction ig = NONE"
    by simp
qed

theorem confirmed_direction_is_pending_direction_witness:
  "(\<exists>sg s'. confirmOnCloseForSymbol (demo_env 58 9000000)
               (demo_store (Some (demo_pending LONG 2 True, 14400000)) None None)
               ''BTCUSDT'' demo_tick demo_tm (demo_pm None 0) = (Some sg, s')
            \<and> mode sg = CONFIRMED \<and> direction sg = LONG)
   \<and> (\<exists>ig. fst (confirmOnCloseForSymbol (demo_env 58 9000000)
                   (demo_store (Some (demo_pending SHORT 2 True, 14400000)) None None)
                   ''BTCUSDT'' demo_tick demo_tm (demo_pm None 0)) = Some ig
            \<and> mode ig = INVALIDATED \<and> reasons ig = [''CLOSE_DIRECTION_CHANGED'']
            \<and> direction ig = NONE)"
proof -
  obtain sg s' where run:
    "confirmOnCloseForSymbol (demo_env 58 9000000)
       (demo_store (Some (demo_pending LONG 2 True, 14400000)) None None)
       ''BTCUSDT'' demo_tick demo_tm (demo_pm None 0) = (Some sg, s')"
    "mode sg = CONFIRMED"
    using demo_confirm_run [of None 0]
    by (cases "confirmOnCloseForSymbol (demo_env 58 9000000)
                 (demo_store (Some (demo_pending LONG 2 True, 14400000)) None None)
                 ''BTCUSDT'' demo_tick demo_tm (demo_pm None 0)") auto
  from run
    confirmed_direction_is_pending_direction
      [where ev = "demo_env 58 9000000"
         and s = "demo_store (Some (demo_pending LONG 2 True, 14400000)) None None"
         and symb = "''BTCUSDT''" and tk = demo_tick and tm = demo_tm and pm = "demo_pm None 0"
         and sg = sg and s' = s']
  have a: "direction sg = LONG"
    by auto
  from confirmed_direction_is_pending_direction
      [where ev = "demo_env 58 9000000"
         and s = "demo_store (Some (demo_pending SHORT 2 True, 14400000)) None None"
         and symb = "''BTCUSDT''" and tk = demo_tick and tm = demo_tm and pm = "demo_pm None 0"
         and p = "demo_pending SHORT 2 True" and tkr = demo_ticker and pr = "demo_prem None 0"]
  have b: "\<exists>ig. fst (confirmOnCloseForSymbol (demo_env 58 9000000)
                   (demo_store (Some (demo_pending SHORT 2 True, 14400000)) None None)
                   ''BTCUSDT'' demo_tick demo_tm (demo_pm None 0)) = Some ig
            \<and> mode ig = INVALIDATED \<and> reasons ig = [''CLOSE_DIRECTION_CHANGED'']
            \<and> direction ig = NONE"
    by (simp add: ATR_PERIOD_def)
  from run a b show ?thesis by blast
qed



subsection \<open>Liquidation veto\<close>

text \<open>
  For every direction and every confidence the risk adjuster sets the veto when the
  liquidation intensity is at least 8 and the bias agrees with the direction (LONG with
  bias +1, SHORT with bias -1). In \<^verbatim>\<open>trade-bot.js\<close> an intrabar evaluation whose
  candidate direction is vetoed by the symbol's liquidation record returns none and
  leaves the store as it was, whatever the confidence; a close-confirmation evaluation
  of a requested PendingConfirmation in that situation returns an INVALIDATED signal.
  The variant with the debugging overrides, treated last, does not read the veto in its
  intrabar evaluation.
\<close>

lemma liquidation_veto:
  fixes ev s symb tk tm pm
  defines "ind \<equiv> computeIndicatorsFromCandles (e_lib ev) (parseCandleRows (e_klines ev symb))"
  shows "(intensityScore l \<ge> 8 \<and> ((d = LONG \<and> dirBias l = 1) \<or> (d = SHORT \<and> dirBias l = - 1))
            \<longrightarrow> veto (applyLiquidationAdjustments d conf l))
         \<and> (tm symb = Some tkr
             \<and> veto (applyLiquidationAdjustments
                       (fst (resolveCandidate (cdir (directionCandidate (classifyTrend tkr ind) ind))))
                       conf (getLiquidationFromRedis s symb (e_now ev)))
            \<longrightarrow> evaluateIntrabarForSymbol ev s symb tk tm pm = (None, s))
         \<and> (pending_confirm (getState s symb (e_now ev)) = Some p \<and> confirm_requested p
             \<and> tm symb = Some tkr \<and> pm symb = Some pr
             \<and> veto (applyLiquidationAdjustments
                       (fst (resolveCandidate (cdir (directionCandidate (classifyTrend tkr ind) ind))))
                       conf (getLiquidationFromRedis s symb (e_now ev)))
            \<longrightarrow> (\<exists>sg. fst (confirmOnCloseForSymbol ev s symb tk tm pm) = Some sg
                      \<and> mode sg = INVALIDATED))"
proof (intro conjI impI)
  assume "intensityScore l \<ge> 8 \<and> ((d = LONG \<and> dirBias l = 1) \<or> (d = SHORT \<and> dirBias l = - 1))"
  then show "veto (applyLiquidationAdjustments d conf l)"
    by (simp add: veto_iff)
next
  assume h: "tm symb = Some tkr
             \<and> veto (applyLiquidationAdjustments
                       (fst (resolveCandidate (cdir (directionCandidate (classifyTrend tkr ind) ind))))
                       conf (getLiquidationFromRedis s symb (e_now ev)))"
  show "evaluateIntrabarForSymbol ev s symb tk tm pm = (None, s)"
    by (rule intrabar_veto_I [where conf = conf]) (use h in \<open>simp add: ind_def\<close>)
next
  assume h: "pending_confirm (getState s symb (e_now ev)) = Some p \<and> confirm_requested p
             \<and> tm symb = Some tkr \<and> pm symb = Some pr
             \<and> veto (applyLiquidationAdjustments
                       (fst (resolveCandidate (cdir (directionCandidate (classifyTrend tkr ind) ind))))
                       conf (getLiquidationFromRedis s symb (e_now ev)))"
  show "\<exists>sg. fst (confirmOnCloseForSymbol ev s symb tk tm pm) = Some sg \<and> mode sg = INVALIDATED"
    by (rule close_veto_mode [where p = p and tkr = tkr and pr = pr and conf = conf])
       (use h in \<open>simp_all add: ind_def\<close>)
qed

lemma liquidation_veto_demo:
  "veto (applyLiquidationAdjustments LONG 100
           \<lparr> intensityScore = 9, dirBias = 1, notionalSum = 5000000 \<rparr>)
   \<and> evaluateIntrabarForSymbol (demo_env 58 7200000) (demo_store None (Some demo_liq_high) None)
        ''BTCUSDT'' demo_tick demo_tm (demo_pm None 0)
      = (None, demo_store None (Some demo_liq_high) None)
   \<and> (\<exists>sg. fst (confirmOnCloseForSymbol (demo_env 58 9000000)
                   (demo_store (Some (demo_pending LONG 2 True, 14400000)) (Some demo_liq_high) None)
                   ''BTCUSDT'' demo_tick demo_tm (demo_pm None 0)) = Some sg
            \<and> mode sg = INVALIDATED)"
  using
    liquidation_veto
      [where l = "\<lparr> intensityScore = 9, dirBias = 1, notionalSum = 5000000 \<rparr>"
         and d = LONG and conf = 100 and tm = demo_tm and symb = "''BTCUSDT''"
         and tkr = demo_ticker and ev = "demo_env 58 7200000"
         and s = "demo_store None (Some demo_liq_high) None" and tk = demo_tick
         and pm = "demo_pm None 0"]
    liquidation_veto
      [where l = "\<lparr> intensityScore = 9, dirBias = 1, notionalSum = 5000000 \<rparr>"
         and d = LONG and conf = 100 and tm = demo_tm and symb = "''BTCUSDT''"
         and tkr = demo_ticker and ev = "demo_env 58 9000000"
         and s = "demo_store (Some (demo_pending LONG 2 True, 14400000)) (Some demo_liq_high) None"
         and tk = demo_tick and pm = "demo_pm None 0" and p = "demo_pending LONG 2 True"
         and pr = "demo_prem None 0"]
  by (simp add: veto_iff)

subsection \<open>Invalidated signals\<close>

text \<open>
  Claim C10. Every INVALIDATED signal a close-confirmation evaluation returns carries no
  trade parameters: its direction is \<open>NONE\<close>, its confidence is 0, its entry, target and
  stop prices are null, its reasons list holds the invalidation reason alone, and its id
  is \<open>INVALID|symbol|minute bucket|reason\<close>. The CoinGecko variant's \<open>invalidate\<close> builds
  the same object and hashes that id string.
\<close>

theorem invalidated_signal_carries_no_trade:
  assumes "confirmOnCloseForSymbol ev s symb tk tm pm = (Some sg, s')"
      and "mode sg = INVALIDATED"
  shows "direction sg = NONE \<and> confidence sg = 0 \<and> entryRefPrice sg = None
         \<and> tpPrice sg = None \<and> slPrice sg = None
         \<and> (\<exists>r. reasons sg = [r]
                \<and> sig_id sg = ''INVALID|'' @ symb @ ''|''
                                 @ show_int (floorTimeBucket (e_now ev) 60) @ ''|'' @ r)
         \<and> fst (invalidate_mjs sha s symb rsn now)
             = (fst (invalidate s symb rsn now))
                 \<lparr> sig_id := sha (''INVALID|'' @ symb @ ''|''
                                      @ show_int (floorTimeBucket now 60) @ ''|'' @ rsn) \<rparr>"
proof -
  from close_invalidated_D [OF assms] obtain r where "(sg, s') = invalidate s symb r (e_now ev)"
    by blast
  then have "sg = fst (invalidate s symb r (e_now ev))"
    by (metis fst_conv)
  then show ?thesis
    by (simp add: invalidate_mjs_def invalidate_def Let_def)
qed

theorem invalidated_signal_carries_no_trade_witness:
  "\<exists>sg s'. confirmOnCloseForSymbol (demo_env 58 9000000)
              (demo_store (Some (demo_pending SHORT 2 True, 14400000)) None None)
              ''BTCUSDT'' demo_tick demo_tm (demo_pm None 0) = (Some sg, s')
           \<and> mode sg = INVALIDATED \<and> direction sg = NONE \<and> confidence sg = 0
           \<and> entryRefPrice sg = None \<and> tpPrice sg = None \<and> slPrice sg = None
           \<and> reasons sg = [''CLOSE_DIRECTION_CHANGED'']
           \<and> sig_id sg = ''INVALID|BTCUSDT|9000000|CLOSE_DIRECTION_CHANGED''"
proof -
  have run: "confirmOnCloseForSymbol (demo_env 58 9000000)
              (demo_store (Some (demo_pending SHORT 2 True, 14400000)) None None)
              ''BTCUSDT'' demo_tick demo_tm (demo_pm None 0)
             = invalidated (demo_store (Some (demo_pending SHORT 2 True, 14400000)) None None)
                 ''BTCUSDT'' ''CLOSE_DIRECTION_CHANGED'' 9000000"
    using close_direction_changed_I
      [where s = "demo_store (Some (demo_pending SHORT 2 True, 14400000)) None None"
         and symb = "''BTCUSDT''" and ev = "demo_env 58 9000000"
         and p = "demo_pending SHORT 2 True" and tm = demo_tm and tkr = demo_ticker
         and pm = "demo_pm None 0" and pr = "demo_prem None 0" and tk = demo_tick]
    by (simp add: ATR_PERIOD_def)
  obtain sg s' where r: "confirmOnCloseForSymbol (demo_env 58 9000000)
              (demo_store (Some (demo_pending SHORT 2 True, 14400000)) None None)
              ''BTCUSDT'' demo_tick demo_tm (demo_pm None 0) = (Some sg, s')"
    and sg: "sg = fst (invalidate (demo_store (Some (demo_pending SHORT 2 True, 14400000)) None None)
                 ''BTCUSDT'' ''CLOSE_DIRECTION_CHANGED'' 9000000)"
    unfolding run by (simp add: invalidated_def)
  have m: "mode sg = INVALIDATED" and rs: "reasons sg = [''CLOSE_DIRECTION_CHANGED'']"
    by (simp_all add: sg)
  have b: "show_int (floorTimeBucket 9000000 60) = ''9000000''"
    by (simp add: floorTimeBucket_def show_int_def show_nat.simps digit_char_def)
  from invalidated_signal_carries_no_trade [OF r m, where sha = id and rsn = "[]" and now = 0] rs b
  have "direction sg = NONE \<and> confidence sg = 0 \<and> entryRefPrice sg = None
        \<and> tpPrice sg = None \<and> slPrice sg = None
        \<and> sig_id sg = ''INVALID|BTCUSDT|9000000|CLOSE_DIRECTION_CHANGED''"
    by auto
  with r m rs show ?thesis by blast
qed

subsection \<open>Funding warning\<close>

text \<open>
  Claim C9 says that the funding warning is attached exactly when the next funding time
  is known and at most 30 minutes away and the absolute rate is at least 0.0002. The
  code compares whole minutes: \<open>minutesTo\<close> floors the distance. A funding time 30
  minutes and 1 millisecond away (02:30:00.001 seen from 02:00:00) with rate 0.001 gets
  the warning although it is more than 30 minutes away.
\<close>

theorem funding_warning_counterexample:
  "map_option warnings
     (fst (evaluateIntrabarForSymbol (demo_env 58 7200000) (demo_store None None None)
             ''BTCUSDT'' demo_tick demo_tm (demo_pm (Some 9000001) 0.001)))
     = Some [''FUNDING_SOON_HIGH_RATE'']
   \<and> \<not> (9000001 - e_now (demo_env 58 7200000) \<le> 30 * 60000)"
  using demo_preview_run [of "Some 9000001" "0.001"]
  by (auto simp: fundingWarnings_def minutesTo_def CONFIG_defs)

text \<open>
  Claim C9 as amended. \<open>FUNDING_SOON_HIGH_RATE\<close> is among the warnings of a PREVIEW or
  CONFIRMED signal exactly when the next funding time is known, less than 31 minutes
  away (its distance in whole minutes, rounded down, is at most 30; a time already past
  counts) and the absolute funding rate is at least 0.0002. The funding fields have no
  influence on the confidence: two evaluations that differ only in them return the same
  confidence or both return nothing. The later variant's \<open>attachFundingAndMarket\<close>, which
  attaches \<open>FUNDING_RATE_HIGH\<close> on the rate alone, leaves the confidence as it is too.
\<close>

theorem funding_warning_whole_minutes:
  "(evaluateIntrabarForSymbol ev s symb tk tm pm = (Some sg, s') \<and> pm symb = Some pr
      \<longrightarrow> (''FUNDING_SOON_HIGH_RATE'' \<in> set (warnings sg)
            \<longleftrightarrow> (\<exists>t. nextFundingTime pr = Some t \<and> t - e_now ev < 31 * 60000
                     \<and> \<bar>lastFundingRate pr\<bar> \<ge> 0.0002)))
   \<and> (confirmOnCloseForSymbol ev s symb tk tm pm = (Some cg, c') \<and> mode cg = CONFIRMED
       \<and> pm symb = Some pr
      \<longrightarrow> (''FUNDING_SOON_HIGH_RATE'' \<in> set (warnings cg)
            \<longleftrightarrow> (\<exists>t. nextFundingTime pr = Some t \<and> t - e_now ev < 31 * 60000
                     \<and> \<bar>lastFundingRate pr\<bar> \<ge> 0.0002)))
   \<and> (pm symb = Some pr \<and> pm' symb = Some pr' \<and> markPrice pr' = markPrice pr
      \<longrightarrow> map_option confidence (fst (evaluateIntrabarForSymbol ev s symb tk tm pm))
            = map_option confidence (fst (evaluateIntrabarForSymbol ev s symb tk tm pm'))
          \<and> map_option confidence (fst (confirmOnCloseForSymbol ev s symb tk tm pm))
            = map_option confidence (fst (confirmOnCloseForSymbol ev s symb tk tm pm')))
   \<and> confidence (attachFundingAndMarket row g) = confidence g"
proof (intro conjI impI)
  assume h: "evaluateIntrabarForSymbol ev s symb tk tm pm = (Some sg, s') \<and> pm symb = Some pr"
  from intrabar_preview_D [of ev s symb tk tm pm sg s'] h
  obtain a where "warnings sg = adj_warnings a @ fundingWarnings pr (e_now ev)"
    and "\<exists>d c l. a = applyLiquidationAdjustments d c l"
    by auto
  then show "''FUNDING_SOON_HIGH_RATE'' \<in> set (warnings sg)
            \<longleftrightarrow> (\<exists>t. nextFundingTime pr = Some t \<and> t - e_now ev < 31 * 60000
                     \<and> \<bar>lastFundingRate pr\<bar> \<ge> 0.0002)"
    using adj_warnings_no_funding fundingWarnings_iff [of pr "e_now ev"] by auto
next
  assume h: "confirmOnCloseForSymbol ev s symb tk tm pm = (Some cg, c') \<and> mode cg = CONFIRMED
       \<and> pm symb = Some pr"
  from close_confirmed_D [of ev s symb tk tm pm cg c'] h
  obtain a where "warnings cg = adj_warnings a @ fundingWarnings pr (e_now ev)"
    and "\<exists>d c l. a = applyLiquidationAdjustments d c l"
    by auto
  then show "''FUNDING_SOON_HIGH_RATE'' \<in> set (warnings cg)
            \<longleftrightarrow> (\<exists>t. nextFundingTime pr = Some t \<and> t - e_now ev < 31 * 60000
                     \<and> \<bar>lastFundingRate pr\<bar> \<ge> 0.0002)"
    using adj_warnings_no_funding fundingWarnings_iff [of pr "e_now ev"] by auto
next
  assume h: "pm symb = Some pr \<and> pm' symb = Some pr' \<and> markPrice pr' = markPrice pr"
  then show "map_option confidence (fst (evaluateIntrabarForSymbol ev s symb tk tm pm))
            = map_option confidence (fst (evaluateIntrabarForSymbol ev s symb tk tm pm'))"
    using intrabar_funding_frame [of pm symb pr pm' pr'] by blast
next
  assume h: "pm symb = Some pr \<and> pm' symb = Some pr' \<and> markPrice pr' = markPrice pr"
  then show "map_option confidence (fst (confirmOnCloseForSymbol ev s symb tk tm pm))
            = map_option confidence (fst (confirmOnCloseForSymbol ev s symb tk tm pm'))"
    using close_funding_frame [of pm symb pr pm' pr'] by blast
next
  show "confidence (attachFundingAndMarket row g) = confidence g"
    by (simp add: attachFundingAndMarket_def Let_def split: option.splits)
qed

theorem funding_warning_whole_minutes_witness:
  "(\<exists>sg s'. evaluateIntrabarForSymbol (demo_env 58 7200000) (demo_store None None None)
               ''BTCUSDT'' demo_tick demo_tm (demo_pm (Some 9000001) 0.001) = (Some sg, s')
            \<and> ''FUNDING_SOON_HIGH_RATE'' \<in> set (warnings sg))
   \<and> (\<exists>cg c'. confirmOnCloseForSymbol (demo_env 58 9000000)
               (demo_store (Some (demo_pending LONG 2 True, 14400000)) None None)
               ''BTCUSDT'' demo_tick demo_tm (demo_pm (Some 12600000) 0.001) = (Some cg, c')
            \<and> mode cg = CONFIRMED \<and> ''FUNDING_SOON_HIGH_RATE'' \<notin> set (warnings cg))
   \<and> map_option confidence
        (fst (evaluateIntrabarForSymbol (demo_env 58 7200000) (demo_store None None None)
                ''BTCUSDT'' demo_tick demo_tm (demo_pm (Some 9000001) 0.001)))
      = map_option confidence
        (fst (evaluateIntrabarForSymbol (demo_env 58 7200000) (demo_store None None None)
                ''BTCUSDT'' demo_tick demo_tm (demo_pm None 0)))"
proof -
  obtain sg s' where run:
    "evaluateIntrabarForSymbol (demo_env 58 7200000) (demo_store None None None)
       ''BTCUSDT'' demo_tick demo_tm (demo_pm (Some 9000001) 0.001) = (Some sg, s')"
    using demo_preview_run [of "Some 9000001" "0.001"]
    by (cases "evaluateIntrabarForSymbol (demo_env 58 7200000) (demo_store None None None)
                 ''BTCUSDT'' demo_tick demo_tm (demo_pm (Some 9000001) 0.001)") auto
  obtain cg c' where crun:
    "confirmOnCloseForSymbol (demo_env 58 9000000)
       (demo_store (Some (demo_pending LONG 2 True, 14400000)) None None)
       ''BTCUSDT'' demo_tick demo_tm (demo_pm (Some 12600000) 0.001) = (Some cg, c')"
    "mode cg = CONFIRMED"
    using demo_confirm_run [of "Some 12600000" "0.001"]
    by (cases "confirmOnCloseForSymbol (demo_env 58 9000000)
                 (demo_store (Some (demo_pending LONG 2 True, 14400000)) None None)
                 ''BTCUSDT'' demo_tick demo_tm (demo_pm (Some 12600000) 0.001)") auto
  note w = funding_warning_whole_minutes
      [where ev = "demo_env 58 7200000" and s = "demo_store None None None"
         and symb = "''BTCUSDT''" and tk = demo_tick and tm = demo_tm
         and pm = "demo_pm (Some 9000001) 0.001" and sg = sg and s' = s'
         and pr = "demo_prem (Some 9000001) 0.001" and pm' = "demo_pm None 0"
         and pr' = "demo_prem None 0"]
  note c = funding_warning_whole_minutes
      [where ev = "demo_env 58 9000000"
         and s = "demo_store (Some (demo_pending LONG 2 True, 14400000)) None None"
         and symb = "''BTCUSDT''" and tk = demo_tick and tm = demo_tm
         and pm = "demo_pm (Some 12600000) 0.001" and cg = cg and c' = c'
         and pr = "demo_prem (Some 12600000) 0.001"]
  from w run have a: "''FUNDING_SOON_HIGH_RATE'' \<in> set (warnings sg)"
    by simp
  from c crun have b: "''FUNDING_SOON_HIGH_RATE'' \<notin> set (warnings cg)"
    by simp
  from w have f: "map_option confidence
        (fst (evaluateIntrabarForSymbol (demo_env 58 7200000) (demo_store None None None)
                ''BTCUSDT'' demo_tick demo_tm (demo_pm (Some 9000001) 0.001)))
      = map_option confidence
        (fst (evaluateIntrabarForSymbol (demo_env 58 7200000) (demo_store None None None)
                ''BTCUSDT'' demo_tick demo_tm (demo_pm None 0)))"
    by simp
  from run crun a b f show ?thesis by blast
qed

subsection \<open>The reversal check of the CoinGecko variant\<close>

lemma reversalOk_mjs_eq: "reversalOk_mjs d r mom p = reversalOk d r mom p"
  by (auto simp: reversalOk_mjs_def reversalOk_def Let_def)

subsection \<open>The close evaluation of the CoinGecko variant\<close>

lemma invalidate_mjs_fields [simp]:
  "mode (fst (invalidate_mjs sha s symb r now)) = INVALIDATED"
  "direction (fst (invalidate_mjs sha s symb r now)) = NONE"
  "confidence (fst (invalidate_mjs sha s symb r now)) = 0"
  "entryRefPrice (fst (invalidate_mjs sha s symb r now)) = None"
  "tpPrice (fst (invalidate_mjs sha s symb r now)) = None"
  "slPrice (fst (invalidate_mjs sha s symb r now)) = None"
  "reasons (fst (invalidate_mjs sha s symb r now)) = [r]"
  "sig_id (fst (invalidate_mjs sha s symb r now))
     = sha (''INVALID|'' @ symb @ ''|'' @ show_int (floorTimeBucket now 60) @ ''|'' @ r)"
  by (simp_all add: invalidate_mjs_def Let_def)

lemma invalidated_mjs_fst [simp]:
  "fst (invalidated_mjs sha s symb r now) = Some (fst (invalidate_mjs sha s symb r now))"
  by (simp add: invalidated_mjs_def Let_def)

lemma close_confirmed_mjs_D:
  assumes "confirmOnCloseForSymbol_mjs ev s symb derivRow = (Some sg, s')"
    and "mode sg = CONFIRMED"
  shows "\<exists>p. pending_confirm (getState s symb (mj_now ev)) = Some p \<and> confirm_requested p
           \<and> direction sg = p_direction p"
  using assms
  by (auto simp: confirmOnCloseForSymbol_mjs_def Let_def invalidated_mjs_def
      split: option.splits if_splits)

lemma close_invalidated_mjs_D:
  assumes "confirmOnCloseForSymbol_mjs ev s symb derivRow = (Some sg, s')"
    and "mode sg = INVALIDATED"
  shows "\<exists>r. (sg, s') = invalidate_mjs (mj_sha1 ev) s symb r (mj_now ev)"
  using assms
  by (auto simp: confirmOnCloseForSymbol_mjs_def Let_def invalidated_mjs_def
      split: option.splits if_splits)

lemma close_noop_mjs_I:
  assumes "\<And>p. pending_confirm (getState s symb (mj_now ev)) = Some p \<Longrightarrow> \<not> confirm_requested p"
  shows "confirmOnCloseForSymbol_mjs ev s symb derivRow = (None, s)"
  using assms by (auto simp: confirmOnCloseForSymbol_mjs_def Let_def split: option.splits)


lemma close_reason_mjs_D:
  assumes "fst (confirmOnCloseForSymbol_mjs ev s symb derivRow) = Some sg"
    and "reasons sg = [''CLOSE_REVERSAL_NOT_CONFIRMED'']"
  shows "\<exists>p ohlcv r. pending_confirm (getState s symb (mj_now ev)) = Some p
           \<and> fetchOhlcv1hFromCoinapi ev symb = Some ohlcv
           \<and> rsi (computeIndicatorsFromCandles (mj_lib ev) (fst ohlcv)) = Some r
           \<and> \<not> reversalOk_mjs (p_direction p) r
                 (computeMomentum (computeIndicatorsFromCandles (mj_lib ev) (fst ohlcv))) p"
  using assms
  by (auto simp: confirmOnCloseForSymbol_mjs_def Let_def invalidated_mjs_def
      split: option.splits if_splits)

lemma close_direction_changed_mjs_I:
  fixes ev ohlcv
  defines "ind \<equiv> computeIndicatorsFromCandles (mj_lib ev) (fst ohlcv)"
  assumes "pending_confirm (getState s symb (mj_now ev)) = Some p" "confirm_requested p"
      and "fetchOhlcv1hFromCoinapi ev symb = Some ohlcv"
      and "rsi ind \<noteq> None" "macd ind \<noteq> None" "bb ind \<noteq> None" "atr ind \<noteq> None"
      and "cdir (directionCandidate (classifyTrend_mjs dr ind) ind) \<noteq> NO_TRADE"
      and "fst (resolveCandidate (cdir (directionCandidate (classifyTrend_mjs dr ind) ind)))
             \<noteq> p_direction p"
  shows "confirmOnCloseForSymbol_mjs ev s symb (Some dr)
           = invalidated_mjs (mj_sha1 ev) s symb ''CLOSE_DIRECTION_CHANGED'' (mj_now ev)"
  using assms by (auto simp: confirmOnCloseForSymbol_mjs_def Let_def)

lemma close_reversal_mjs_I:
  fixes ev ohlcv
  defines "ind \<equiv> computeIndicatorsFromCandles (mj_lib ev) (fst ohlcv)"
  assumes "pending_confirm (getState s symb (mj_now ev)) = Some p" "confirm_requested p"
      and "fetchOhlcv1hFromCoinapi ev symb = Some ohlcv"
      and "rsi ind = Some r" "macd ind \<noteq> None" "bb ind \<noteq> None" "atr ind \<noteq> None"
      and "cdir (directionCandidate (classifyTrend_mjs dr ind) ind) \<noteq> NO_TRADE"
      and "fst (resolveCandidate (cdir (directionCandidate (classifyTrend_mjs dr ind) ind)))
             = p_direction p"
      and "snd (resolveCandidate (cdir (directionCandidate (classifyTrend_mjs dr ind) ind)))"
      and "\<not> reversalOk_mjs (p_direction p) r (computeMomentum ind) p"
  shows "confirmOnCloseForSymbol_mjs ev s symb (Some dr)
           = invalidated_mjs (mj_sha1 ev) s symb ''CLOSE_REVERSAL_NOT_CONFIRMED'' (mj_now ev)"
  using assms by (auto simp: confirmOnCloseForSymbol_mjs_def Let_def)

text \<open>
  The CoinGecko variant's close evaluation keeps the four properties of the state
  machine: confirmation needs a requested PendingConfirmation, a confirmed signal has the
  pending direction, a changed direction invalidates, and an invalidated signal carries
  no trade parameters.
\<close>

lemma close_confirmation_mjs:
  assumes "confirmOnCloseForSymbol_mjs ev s symb derivRow = (Some sg, s')"
  shows "mode sg = CONFIRMED \<or> mode sg = INVALIDATED"
    and "mode sg = CONFIRMED \<Longrightarrow>
           \<exists>p. pending_confirm (getState s symb (mj_now ev)) = Some p \<and> confirm_requested p
               \<and> direction sg = p_direction p"
    and "mode sg = INVALIDATED \<Longrightarrow>
           direction sg = NONE \<and> confidence sg = 0 \<and> entryRefPrice sg = None
           \<and> tpPrice sg = None \<and> slPrice sg = None
           \<and> (\<exists>r. reasons sg = [r]
                  \<and> sig_id sg = mj_sha1 ev (''INVALID|'' @ symb @ ''|''
                                   @ show_int (floorTimeBucket (mj_now ev) 60) @ ''|'' @ r))"
proof -
  show "mode sg = CONFIRMED \<or> mode sg = INVALIDATED"
    using assms
    by (auto simp: confirmOnCloseForSymbol_mjs_def Let_def invalidated_mjs_def
        split: option.splits if_splits)
  show "\<exists>p. pending_confirm (getState s symb (mj_now ev)) = Some p \<and> confirm_requested p
               \<and> direction sg = p_direction p" if "mode sg = CONFIRMED"
    using close_confirmed_mjs_D [OF assms that] .
  show "direction sg = NONE \<and> confidence sg = 0 \<and> entryRefPrice sg = None
           \<and> tpPrice sg = None \<and> slPrice sg = None
           \<and> (\<exists>r. reasons sg = [r]
                  \<and> sig_id sg = mj_sha1 ev (''INVALID|'' @ symb @ ''|''
                                   @ show_int (floorTimeBucket (mj_now ev) 60) @ ''|'' @ r))"
    if "mode sg = INVALIDATED"
  proof -
    from close_invalidated_mjs_D [OF assms that] obtain r
      where "(sg, s') = invalidate_mjs (mj_sha1 ev) s symb r (mj_now ev)" by blast
    then have "sg = fst (invalidate_mjs (mj_sha1 ev) s symb r (mj_now ev))"
      by (metis fst_conv)
    then show ?thesis by simp
  qed
qed

lemma reversal_check_at_close_mjs:
  fixes ev ohlcv
  defines "ind \<equiv> computeIndicatorsFromCandles (mj_lib ev) (fst ohlcv)"
  assumes pend: "pending_confirm (getState s symb (mj_now ev)) = Some p" "confirm_requested p"
      and snap: "snapshot_metrics p = Some sn"
      and inp: "fetchOhlcv1hFromCoinapi ev symb = Some ohlcv"
      and ind: "rsi ind = Some r" "macd ind \<noteq> None" "bb ind \<noteq> None" "atr ind \<noteq> None"
      and cand: "cdir (directionCandidate (classifyTrend_mjs dr ind) ind) = LONG_CANDIDATE
                 \<or> cdir (directionCandidate (classifyTrend_mjs dr ind) ind) = SHORT_CANDIDATE"
      and same: "fst (resolveCandidate (cdir (directionCandidate (classifyTrend_mjs dr ind) ind)))
                   = p_direction p"
  shows "(\<exists>sg. fst (confirmOnCloseForSymbol_mjs ev s symb (Some dr)) = Some sg
               \<and> mode sg = INVALIDATED \<and> reasons sg = [''CLOSE_REVERSAL_NOT_CONFIRMED''])
         \<longleftrightarrow> (((p_direction p = SHORT \<and> r \<ge> 70) \<or> (p_direction p = LONG \<and> r \<le> 30))
              \<and> score (computeMomentum ind) = momentumScore sn)"
proof
  assume "\<exists>sg. fst (confirmOnCloseForSymbol_mjs ev s symb (Some dr)) = Some sg
               \<and> mode sg = INVALIDATED \<and> reasons sg = [''CLOSE_REVERSAL_NOT_CONFIRMED'']"
  then obtain sg where sg: "fst (confirmOnCloseForSymbol_mjs ev s symb (Some dr)) = Some sg"
    "reasons sg = [''CLOSE_REVERSAL_NOT_CONFIRMED'']" by blast
  from close_reason_mjs_D [OF sg] pend(1) inp ind(1)
  have nok: "\<not> reversalOk_mjs (p_direction p) r (computeMomentum ind) p"
    by (auto simp: ind_def)
  from cand same have "p_direction p = SHORT \<or> p_direction p = LONG"
    by (auto simp: resolveCandidate_def)
  with nok snap show "((p_direction p = SHORT \<and> r \<ge> 70) \<or> (p_direction p = LONG \<and> r \<le> 30))
              \<and> score (computeMomentum ind) = momentumScore sn"
    by (auto simp: reversalOk_mjs_def snapshotScoreOr_def Let_def)
next
  assume rhs: "((p_direction p = SHORT \<and> r \<ge> 70) \<or> (p_direction p = LONG \<and> r \<le> 30))
              \<and> score (computeMomentum ind) = momentumScore sn"
  with snap have nok: "\<not> reversalOk_mjs (p_direction p) r (computeMomentum ind) p"
    by (auto simp: reversalOk_mjs_def snapshotScoreOr_def Let_def)
  from cand have nt: "cdir (directionCandidate (classifyTrend_mjs dr ind) ind) \<noteq> NO_TRADE"
    and rv: "snd (resolveCandidate (cdir (directionCandidate (classifyTrend_mjs dr ind) ind)))"
    by (auto simp: resolveCandidate_def)
  have "confirmOnCloseForSymbol_mjs ev s symb (Some dr)
           = invalidated_mjs (mj_sha1 ev) s symb ''CLOSE_REVERSAL_NOT_CONFIRMED'' (mj_now ev)"
    by (rule close_reversal_mjs_I [where p = p and r = r and ohlcv = ohlcv])
       (use pend inp ind nt same rv nok in \<open>simp_all add: ind_def\<close>)
  then show "\<exists>sg. fst (confirmOnCloseForSymbol_mjs ev s symb (Some dr)) = Some sg
               \<and> mode sg = INVALIDATED \<and> reasons sg = [''CLOSE_REVERSAL_NOT_CONFIRMED'']"
    by simp
qed

lemma demo_symbol_id_mjs [simp]: "coinapiSymbolIdFor ''BINANCE'' ''BTCUSDT'' = ''BINANCE_PERP_BTC_USDT''"
  by (simp add: coinapiSymbolIdFor_def splitBaseQuote_def)

lemma demo_env_mjs_fields [simp]:
  "mj_now (demo_env_mjs sha r t) = t"
  "mj_sha1 (demo_env_mjs sha r t) = sha"
  "mj_lib (demo_env_mjs sha r t) = demo_lib r"
  "mj_price_precision (demo_env_mjs sha r t) symb = None"
  by (simp_all add: demo_env_mjs_def)

lemma demo_fetch_mjs [simp]:
  "fetchOhlcv1hFromCoinapi (demo_env_mjs sha r t) ''BTCUSDT''
     = Some (parseCandleRows (replicate 16 demo_row), ''BINANCE_PERP_BTC_USDT'')"
  by (simp add: fetchOhlcv1hFromCoinapi_def demo_env_mjs_def Let_def ATR_PERIOD_def
      parseCandleRows_def demo_ohlcv_mjs_def demo_row_def)

lemma demo_ind_computed_mjs [simp]:
  "computeIndicatorsFromCandles (demo_lib r) (parseCandleRows (replicate 16 demo_row)) = demo_ind r"
  by (simp add: computeIndicatorsFromCandles_def parseCandleRows_def demo_lib_def
      demo_row_def demo_ind_def lastOrNull_def Let_def sum_list_replicate)

lemma demo_deriv_fields [simp]:
  "dr_index demo_deriv = Some 101"
  "market demo_deriv = Some ''Binance (Futures)''"
  by (simp_all add: demo_deriv_def)

lemma demo_trend_mjs [simp]: "classifyTrend_mjs demo_deriv (demo_ind r) = UP"
  by (simp add: classifyTrend_mjs_def demo_ind_def demo_deriv_def CONFIG_defs)

lemma demo_confidence_mjs [simp]:
  "baseConfidence_mjs UP \<lparr> score = 2, strength = MED \<rparr> (demo_ind r) demo_deriv = 74"
  "baseConfidence_mjs UP \<lparr> score = 3, strength = MED \<rparr> (demo_ind r) demo_deriv = 74"
  by (simp_all add: baseConfidence_mjs_def demo_deriv_def clamp_def)

lemma demo_adj_mjs [simp]:
  "applyLiquidationAdjustments d 74 \<lparr> intensityScore = 0, dirBias = 0, notionalSum = 0 \<rparr>
     = \<lparr> adj_confidence = 74, veto = False, adj_warnings = [] \<rparr>"
  by (simp add: applyLiquidationAdjustments_def CONFIG_defs clamp_def)

lemma demo_plan_mjs [simp]:
  "pickTpSlATR 101 2 LONG 74 MED False 0 BBW_high
     = Some \<lparr> pl_slPrice = 96, pl_tpPrice = 108.5, pl_atr = 2, slAtrMult = 2.5, rr = 1.5 \<rparr>"
  "pickTpSlATR 101 2 SHORT 74 MED True 0 BBW_high
     = Some \<lparr> pl_slPrice = 106, pl_tpPrice = 93.5, pl_atr = 2, slAtrMult = 2.5, rr = 1.5 \<rparr>"
  by (simp_all add: pickTpSlATR_def chooseSLMult_def chooseRR_def bpsToDist_def CONFIG_defs)

lemma demo_round_mjs [simp]:
  "roundToDecimals 96 2 = 96" "roundToDecimals (217 / 2) 2 = 217 / 2"
  "roundToDecimals 106 2 = 106" "roundToDecimals (187 / 2) 2 = 187 / 2"
proof -
  have "\<lfloor>(217 / 2 :: real) * 10 ^ 2 + 1 / 2\<rfloor> = 10850"
    by (simp add: floor_eq_iff)
  then show "roundToDecimals (217 / 2) 2 = 217 / 2"
    by (simp add: roundToDecimals_def toFixed_def Let_def)
  have "\<lfloor>(187 / 2 :: real) * 10 ^ 2 + 1 / 2\<rfloor> = 9350"
    by (simp add: floor_eq_iff)
  then show "roundToDecimals (187 / 2) 2 = 187 / 2"
    by (simp add: roundToDecimals_def toFixed_def Let_def)
  show "roundToDecimals 96 2 = 96" "roundToDecimals 106 2 = 106"
    by (simp_all add: roundToDecimals_def toFixed_def Let_def)
qed

text \<open>
  A confirmation on close at 02:30:00 in the CoinGecko variant, and the invalidation of a
  pending SHORT by the LONG candidate of the same inputs.
\<close>

lemma demo_confirm_run_mjs:
  "map_option (\<lambda>g. (mode g, direction g, confidence g, entryRefPrice g, tpPrice g, slPrice g,
                     sig_id g))
     (fst (confirmOnCloseForSymbol_mjs (demo_env_mjs sha 58 9000000)
             (demo_store (Some (demo_pending LONG 2 True, 14400000)) None None)
             ''BTCUSDT'' (Some demo_deriv)))
   = Some (CONFIRMED, LONG, 74, Some 101, Some 108.5, Some 96,
           sha (''CONFIRMED|BTCUSDT|LONG|3600000''))"
  by (simp add: confirmOnCloseForSymbol_mjs_def Let_def MIN_CONF_CONFIRMED_def
      reversalOk_mjs_def makeConfirmedId_mjs_def show_int_opt_def show_int_def
      show_nat.simps digit_char_def)

lemma demo_invalidate_run_mjs:
  "map_option (\<lambda>g. (mode g, direction g, confidence g, entryRefPrice g, tpPrice g, slPrice g,
                     reasons g, sig_id g))
     (fst (confirmOnCloseForSymbol_mjs (demo_env_mjs sha 58 9000000)
             (demo_store (Some (demo_pending SHORT 2 True, 14400000)) None None)
             ''BTCUSDT'' (Some demo_deriv)))
   = Some (INVALIDATED, NONE, 0, None, None, None, [''CLOSE_DIRECTION_CHANGED''],
           sha (''INVALID|BTCUSDT|9000000|CLOSE_DIRECTION_CHANGED''))"
  by (simp add: confirmOnCloseForSymbol_mjs_def Let_def floorTimeBucket_def show_int_def
      show_nat.simps digit_char_def)

lemma demo_reversal_run_mjs:
  "map_option (\<lambda>g. (mode g, reasons g))
     (fst (confirmOnCloseForSymbol_mjs (demo_env_mjs sha 75 9000000)
             (demo_store (Some (demo_pending SHORT 3 True, 14400000)) None None)
             ''BTCUSDT'' (Some demo_deriv)))
   = Some (INVALIDATED, [''CLOSE_REVERSAL_NOT_CONFIRMED''])"
  "map_option (\<lambda>g. (mode g, direction g, tpPrice g, slPrice g))
     (fst (confirmOnCloseForSymbol_mjs (demo_env_mjs sha 75 9000000)
             (demo_store (Some (demo_pending SHORT 2 True, 14400000)) None None)
             ''BTCUSDT'' (Some demo_deriv)))
   = Some (CONFIRMED, SHORT, Some 93.5, Some 106)"
  by (simp_all add: confirmOnCloseForSymbol_mjs_def Let_def MIN_CONF_CONFIRMED_def
      reversalOk_mjs_def snapshotScoreOr_def)

subsection \<open>Cooldown and dedupe in the Binance variant\<close>

text \<open>
  In \<^verbatim>\<open>trade-bot.js\<close> the gate stands first in the intrabar evaluation. The cooldown
  record outlives its window (it is stored for six hours), so after a CONFIRMED result
  every intrabar evaluation of the symbol before 30 minutes have passed returns none,
  and after an INVALIDATED one before 15 minutes have passed.
\<close>

lemma intrabar_none_after_confirmed:
  assumes "confirmOnCloseForSymbol ev s symb tk tm pm = (Some sg, s')"
      and "mode sg = CONFIRMED"
      and "e_now ev' < e_now ev + 30 * 60000"
  shows "evaluateIntrabarForSymbol ev' s' symb tk' tm' pm' = (None, s')"
proof -
  from close_confirmed_D [OF assms(1,2)] obtain l where
    s': "s' = saveLastSignal (clearPending (saveCooldown
              (fst (tryDedupeOrDrop s (sig_id sg) (e_now ev)))
              symb (e_now ev + COOLDOWN_CONFIRMED_MIN * 60000) (e_now ev)) symb) symb l (e_now ev)"
    by blast
  have "cooldown_until_ts (getState s' symb (e_now ev')) = e_now ev + COOLDOWN_CONFIRMED_MIN * 60000"
    unfolding s' by (rule cooldown_after_save) (use assms(3) in \<open>simp add: TTL_COOLDOWN_SEC_def\<close>)
  with assms(3) show ?thesis
    by (intro intrabar_cooldown_gate) (simp add: COOLDOWN_CONFIRMED_MIN_def)
qed

lemma intrabar_none_after_invalidated:
  assumes "confirmOnCloseForSymbol ev s symb tk tm pm = (Some sg, s')"
      and "mode sg = INVALIDATED"
      and "e_now ev' < e_now ev + 15 * 60000"
  shows "evaluateIntrabarForSymbol ev' s' symb tk' tm' pm' = (None, s')"
proof -
  from close_invalidated_D [OF assms(1,2)] obtain r where "(sg, s') = invalidate s symb r (e_now ev)"
    by blast
  then have s': "s' = snd (invalidate s symb r (e_now ev))"
    by (metis snd_conv)
  have "cooldown_until_ts (getState s' symb (e_now ev')) = e_now ev + COOLDOWN_INVALIDATED_MIN * 60000"
    unfolding s' invalidate_def Let_def snd_conv
    by (rule cooldown_after_save) (use assms(3) in \<open>simp add: TTL_COOLDOWN_SEC_def\<close>)
  with assms(3) show ?thesis
    by (intro intrabar_cooldown_gate) (simp add: COOLDOWN_INVALIDATED_MIN_def)
qed

text \<open>
  There the preview id is claimed with set-if-absent for 120 seconds, the length of a
  bucket: a second evaluation in the bucket of a first one that returned a signal, on
  the store the first one left and with the same inputs, returns none and changes
  nothing.
\<close>

lemma intrabar_second_in_bucket_suppressed:
  assumes first: "evaluateIntrabarForSymbol ev s symb tk tm pm = (Some sg, s')"
      and bucket: "floorTimeBucket (e_now ev') DEDUPE_SCOPE_SECONDS
                     = floorTimeBucket (e_now ev) DEDUPE_SCOPE_SECONDS"
      and same: "e_lib ev' = e_lib ev" "e_klines ev' = e_klines ev"
  shows "evaluateIntrabarForSymbol ev' s' symb tk tm pm = (None, s')"
proof (rule intrabar_suppressed_I)
  fix tkr' assume tkr': "tm symb = Some tkr'"
  from intrabar_preview_D [OF first] tkr' obtain
    d: "direction sg = fst (resolveCandidate (cdir (directionCandidate
          (classifyTrend tkr' (computeIndicatorsFromCandles (e_lib ev)
             (parseCandleRows (e_klines ev symb))))
          (computeIndicatorsFromCandles (e_lib ev) (parseCandleRows (e_klines ev symb))))))"
    and i: "sig_id sg = makePreviewId symb (direction sg)
                          (floorTimeBucket (e_now ev) DEDUPE_SCOPE_SECONDS)"
    and dd: "dedupes s' = redis_set (dedupes s) (kDedupe (sig_id sg)) 1 DEDUPE_TTL_SECONDS (e_now ev)"
    by auto
  have "e_now ev' < e_now ev + DEDUPE_TTL_SECONDS * 1000"
    using bucket by (rule same_bucket_within_ttl)
  then have "redis_get (dedupes s') (kDedupe (sig_id sg)) (e_now ev') = Some 1"
    by (simp add: dd redis_set_def redis_get_def)
  then show "redis_get (dedupes s')
              (kDedupe (makePreviewId symb
                 (fst (resolveCandidate (cdir (directionCandidate
                    (classifyTrend tkr' (computeIndicatorsFromCandles (e_lib ev')
                       (parseCandleRows (e_klines ev' symb))))
                    (computeIndicatorsFromCandles (e_lib ev')
                       (parseCandleRows (e_klines ev' symb)))))))
                 (floorTimeBucket (e_now ev') DEDUPE_SCOPE_SECONDS))) (e_now ev') \<noteq> None"
    by (simp add: same bucket i [symmetric] d [symmetric])
qed

subsection \<open>Cooldown, dedupe and veto in the variant with the debugging overrides\<close>

lemma sort_key_replicate: "sort_key f (replicate n x) = replicate n x"
proof (induction n)
  case 0
  show ?case by simp
next
  case (Suc n)
  have "insort_key f x (replicate n x) = x # replicate n x"
    by (cases n) simp_all
  with Suc show ?case by simp
qed

lemma demo_now_coinapi [simp]: "ca_now (demo_env_coinapi t) = t"
  by (simp add: demo_env_coinapi_def)

lemma demo_fetch_coinapi [simp]:
  "fetchKlines1h_coinapi (ca_ohlcv (demo_env_coinapi t) sid) sid = Inr (replicate 16 demo_row_coinapi)"
  by (simp add: fetchKlines1h_coinapi_def demo_env_coinapi_def sort_key_replicate)

lemma demo_len_coinapi [simp]: "length (c_close (parseCandleRows_coinapi (replicate 16 demo_row_coinapi))) = 16"
  by (simp add: parseCandleRows_coinapi_def)

lemma demo_ind_computed_coinapi [simp]:
  "computeIndicatorsFromCandles (ca_lib (demo_env_coinapi t))
     (parseCandleRows_coinapi (replicate 16 demo_row_coinapi)) = demo_ind 58"
  by (simp add: demo_env_coinapi_def computeIndicatorsFromCandles_def parseCandleRows_coinapi_def
      demo_lib_def demo_row_coinapi_def demo_ind_def lastOrNull_def Let_def sum_list_replicate)

lemma demo_inputs_coinapi [simp]:
  "lastPrice demo_ticker = 101"
  "fundingWarnings_coinapi (fetchMarketData sid) t = []"
  by (simp_all add: demo_ticker_def fundingWarnings_coinapi_def fetchMarketData_def)

lemma liq_after_saves [simp]:
  "getLiquidationFromRedis (saveLastSignal s a b c) x t = getLiquidationFromRedis s x t"
  "getLiquidationFromRedis (savePending s a' b' c') x t = getLiquidationFromRedis s x t"
  by (simp_all add: getLiquidationFromRedis_def saveLastSignal_def savePending_def)

lemma demo_run_coinapi:
  assumes "getLiquidationFromRedis s ''BTCUSDT'' t
             = \<lparr> intensityScore = 0, dirBias = 0, notionalSum = 0 \<rparr>"
  shows "\<exists>g. evaluateIntrabarForSymbol_coinapi (demo_env_coinapi t) s ''BTCUSDT''
               demo_symbolId demo_tick_coinapi (Some demo_ticker)
           (fetchMarketData demo_symbolId)
             = Inr (g, saveLastSignal
                         (savePending s ''BTCUSDT''
                            \<lparr> signal_id = makePreviewId ''BTCUSDT'' LONG
                                             (floorTimeBucket t DEDUPE_SCOPE_SECONDS),
                              p_direction = LONG, created_ts = t, confirm_requested = False,
                              snapshot_metrics =
                                Some \<lparr> momentumScore = 2, s_bbWidthClass = BBW_high,
                                       s_atr = Some 2,
                                       s_lastCandleCloseTime = Some 3600000 \<rparr> \<rparr> t)
                         ''BTCUSDT''
                         \<lparr> ls_ts = t,
                           ls_id = makePreviewId ''BTCUSDT'' LONG
                                     (floorTimeBucket t DEDUPE_SCOPE_SECONDS),
                           ls_mode = PREVIEW, ls_reason = None \<rparr> t)
           \<and> mode g = PREVIEW \<and> direction g = LONG \<and> confidence g = 76
           \<and> sig_id g = makePreviewId ''BTCUSDT'' LONG (floorTimeBucket t DEDUPE_SCOPE_SECONDS)"
  using assms
  by (simp add: evaluateIntrabarForSymbol_coinapi_def Let_def ATR_PERIOD_def)

text \<open>
  Whatever the store holds, an evaluation of that variant that does not throw returns an
  object of mode PREVIEW: no exit returns \<^verbatim>\<open>null\<close>.
\<close>

lemma coinapi_always_preview:
  assumes "evaluateIntrabarForSymbol_coinapi ev s symb sid tk td md = Inr (g, s')"
  shows "mode g = PREVIEW"
  using assms
  by (auto simp: evaluateIntrabarForSymbol_coinapi_def Let_def skipSignal_def
      split: option.splits sum.splits if_splits)

lemma preview_id_demo:
  "makePreviewId ''BTCUSDT'' LONG (floorTimeBucket 9060000 DEDUPE_SCOPE_SECONDS)
     = ''PREVIEW|BTCUSDT|LONG|9000000''"
  "makePreviewId ''BTCUSDT'' LONG (floorTimeBucket 7200000 DEDUPE_SCOPE_SECONDS)
     = ''PREVIEW|BTCUSDT|LONG|7200000''"
  "makePreviewId ''BTCUSDT'' LONG (floorTimeBucket 7230000 DEDUPE_SCOPE_SECONDS)
     = ''PREVIEW|BTCUSDT|LONG|7200000''"
  by (simp_all add: makePreviewId_def floorTimeBucket_def DEDUPE_SCOPE_SECONDS_def show_int_def
      show_nat.simps digit_char_def)

text \<open>
  Claim C1 on the variant with the debugging overrides. A CONFIRMED result at 02:30:00
  has stored the cooldown until 03:00:00. At 02:31:00 the clock is before the stored
  \<open>cooldown_until_ts\<close>, and the variant's intrabar evaluation returns a full PREVIEW
  signal all the same; the Binance variant returns none on the same store and inputs.
\<close>

theorem debug_variant_ignores_cooldown:
  "9060000 < cooldown_until_ts
               (getState (demo_store None None (Some (10800000, 30600000))) ''BTCUSDT'' 9060000)
   \<and> map_sum id (\<lambda>r. (mode (fst r), direction (fst r), confidence (fst r), sig_id (fst r)))
        (evaluateIntrabarForSymbol_coinapi (demo_env_coinapi 9060000)
           (demo_store None None (Some (10800000, 30600000)))
           ''BTCUSDT'' demo_symbolId demo_tick_coinapi (Some demo_ticker)
           (fetchMarketData demo_symbolId))
      = Inr (PREVIEW, LONG, 76, ''PREVIEW|BTCUSDT|LONG|9000000'')
   \<and> evaluateIntrabarForSymbol (demo_env 58 9060000)
        (demo_store None None (Some (10800000, 30600000)))
        ''BTCUSDT'' demo_tick demo_tm (demo_pm None 0)
      = (None, demo_store None None (Some (10800000, 30600000)))"
proof -
  have a: "9060000 < cooldown_until_ts
               (getState (demo_store None None (Some (10800000, 30600000))) ''BTCUSDT'' 9060000)"
    by simp
  from demo_run_coinapi [of "demo_store None None (Some (10800000, 30600000))" 9060000]
  have b: "map_sum id (\<lambda>r. (mode (fst r), direction (fst r), confidence (fst r), sig_id (fst r)))
        (evaluateIntrabarForSymbol_coinapi (demo_env_coinapi 9060000)
           (demo_store None None (Some (10800000, 30600000)))
           ''BTCUSDT'' demo_symbolId demo_tick_coinapi (Some demo_ticker)
           (fetchMarketData demo_symbolId))
      = Inr (PREVIEW, LONG, 76, ''PREVIEW|BTCUSDT|LONG|9000000'')"
    by (auto simp: preview_id_demo)
  have c: "evaluateIntrabarForSymbol (demo_env 58 9060000)
        (demo_store None None (Some (10800000, 30600000)))
        ''BTCUSDT'' demo_tick demo_tm (demo_pm None 0)
      = (None, demo_store None None (Some (10800000, 30600000)))"
    by (rule intrabar_cooldown_gate) simp
  from a b c show ?thesis by blast
qed

text \<open>
  Claim C2 on the variant with the debugging overrides. Two intrabar evaluations at
  02:00:00 and 02:00:30 fall into the same 120-second bucket; run one after the other
  with the same inputs, the second on the store the first one left, both return a
  PREVIEW signal, with the same id.
\<close>

theorem debug_variant_ignores_dedupe:
  "floorTimeBucket 7200000 DEDUPE_SCOPE_SECONDS = floorTimeBucket 7230000 DEDUPE_SCOPE_SECONDS
   \<and> map_sum id (\<lambda>r. (mode (fst r), direction (fst r), sig_id (fst r)))
        (evaluateIntrabarForSymbol_coinapi (demo_env_coinapi 7200000) (demo_store None None None)
           ''BTCUSDT'' demo_symbolId demo_tick_coinapi (Some demo_ticker)
           (fetchMarketData demo_symbolId))
      = Inr (PREVIEW, LONG, ''PREVIEW|BTCUSDT|LONG|7200000'')
   \<and> map_sum id (\<lambda>r. (mode (fst r), direction (fst r), sig_id (fst r)))
        (evaluateIntrabarForSymbol_coinapi (demo_env_coinapi 7230000)
           (snd (projr (evaluateIntrabarForSymbol_coinapi (demo_env_coinapi 7200000)
                          (demo_store None None None) ''BTCUSDT'' demo_symbolId
                          demo_tick_coinapi (Some demo_ticker)
           (fetchMarketData demo_symbolId))))
           ''BTCUSDT'' demo_symbolId demo_tick_coinapi (Some demo_ticker)
           (fetchMarketData demo_symbolId))
      = Inr (PREVIEW, LONG, ''PREVIEW|BTCUSDT|LONG|7200000'')"
proof -
  have a: "floorTimeBucket 7200000 DEDUPE_SCOPE_SECONDS
             = floorTimeBucket 7230000 DEDUPE_SCOPE_SECONDS"
    by (simp add: floorTimeBucket_def DEDUPE_SCOPE_SECONDS_def)
  from demo_run_coinapi [of "demo_store None None None" 7200000]
  obtain g1 s1 where r1:
    "evaluateIntrabarForSymbol_coinapi (demo_env_coinapi 7200000) (demo_store None None None)
       ''BTCUSDT'' demo_symbolId demo_tick_coinapi (Some demo_ticker)
           (fetchMarketData demo_symbolId)
     = Inr (g1, s1)"
    and g1: "mode g1 = PREVIEW" "direction g1 = LONG"
      "sig_id g1 = ''PREVIEW|BTCUSDT|LONG|7200000''"
    and l1: "getLiquidationFromRedis s1 ''BTCUSDT'' 7230000
               = \<lparr> intensityScore = 0, dirBias = 0, notionalSum = 0 \<rparr>"
    by (auto simp: preview_id_demo)
  from demo_run_coinapi [OF l1]
  obtain g2 s2 where r2:
    "evaluateIntrabarForSymbol_coinapi (demo_env_coinapi 7230000) s1
       ''BTCUSDT'' demo_symbolId demo_tick_coinapi (Some demo_ticker)
           (fetchMarketData demo_symbolId)
     = Inr (g2, s2)"
    and g2: "mode g2 = PREVIEW" "direction g2 = LONG"
      "sig_id g2 = ''PREVIEW|BTCUSDT|LONG|7200000''"
    by (auto simp: preview_id_demo)
  from a r1 g1 r2 g2 show ?thesis by simp
qed

lemma demo_adj_liq_high:
  "applyLiquidationAdjustments LONG 76 \<lparr> intensityScore = 9, dirBias = 1, notionalSum = 5000000 \<rparr>
     = \<lparr> adj_confidence = 66, veto = True, adj_warnings = [''LIQ_INTENSITY_HIGH''] \<rparr>"
  by (simp add: applyLiquidationAdjustments_def CONFIG_defs clamp_def)

lemma demo_plan_liq_high:
  "pickTpSlATR 101 2 LONG 66 MED False 9 BBW_high
     = Some \<lparr> pl_slPrice = 96, pl_tpPrice = 108.5, pl_atr = 2, slAtrMult = 2.5, rr = 1.5 \<rparr>"
  by (simp add: pickTpSlATR_def chooseSLMult_def chooseRR_def bpsToDist_def CONFIG_defs)

lemma demo_run_coinapi_liq_high:
  "map_sum id (\<lambda>r. (mode (fst r), direction (fst r), confidence (fst r), sig_id (fst r),
                     warnings (fst r)))
     (evaluateIntrabarForSymbol_coinapi (demo_env_coinapi 7200000)
        (demo_store None (Some demo_liq_high) None)
        ''BTCUSDT'' demo_symbolId demo_tick_coinapi (Some demo_ticker)
        (fetchMarketData demo_symbolId))
   = Inr (PREVIEW, LONG, 66, ''PREVIEW|BTCUSDT|LONG|7200000'', [''LIQ_INTENSITY_HIGH''])"
  by (simp add: evaluateIntrabarForSymbol_coinapi_def Let_def ATR_PERIOD_def
      demo_adj_liq_high demo_plan_liq_high preview_id_demo)

text \<open>
  Claim C6 on the variant with the debugging overrides. The symbol's liquidation record
  has intensity 9 and bias +1 and the candidate is LONG, so the risk adjuster sets the
  veto. The variant's intrabar evaluation computes the adjustment and never reads its
  veto: it returns a full PREVIEW signal with confidence 66 and the warning
  \<open>LIQ_INTENSITY_HIGH\<close>. The Binance variant returns none on the same store and inputs.
\<close>

theorem debug_variant_ignores_veto:
  "getLiquidationFromRedis (demo_store None (Some demo_liq_high) None) ''BTCUSDT'' 7200000
     = \<lparr> intensityScore = 9, dirBias = 1, notionalSum = 5000000 \<rparr>
   \<and> veto (applyLiquidationAdjustments LONG 76
             (getLiquidationFromRedis (demo_store None (Some demo_liq_high) None)
                ''BTCUSDT'' 7200000))
   \<and> map_sum id (\<lambda>r. (mode (fst r), direction (fst r), confidence (fst r), sig_id (fst r),
                        warnings (fst r)))
        (evaluateIntrabarForSymbol_coinapi (demo_env_coinapi 7200000)
           (demo_store None (Some demo_liq_high) None)
           ''BTCUSDT'' demo_symbolId demo_tick_coinapi (Some demo_ticker)
           (fetchMarketData demo_symbolId))
      = Inr (PREVIEW, LONG, 66, ''PREVIEW|BTCUSDT|LONG|7200000'', [''LIQ_INTENSITY_HIGH''])
   \<and> evaluateIntrabarForSymbol (demo_env 58 7200000)
        (demo_store None (Some demo_liq_high) None)
        ''BTCUSDT'' demo_tick demo_tm (demo_pm None 0)
      = (None, demo_store None (Some demo_liq_high) None)"
proof -
  have a: "getLiquidationFromRedis (demo_store None (Some demo_liq_high) None) ''BTCUSDT'' 7200000
     = \<lparr> intensityScore = 9, dirBias = 1, notionalSum = 5000000 \<rparr>"
    by simp
  have b: "veto (applyLiquidationAdjustments LONG 76
             (getLiquidationFromRedis (demo_store None (Some demo_liq_high) None)
                ''BTCUSDT'' 7200000))"
    by (simp add: demo_adj_liq_high)
  have c: "evaluateIntrabarForSymbol (demo_env 58 7200000)
        (demo_store None (Some demo_liq_high) None)
        ''BTCUSDT'' demo_tick demo_tm (demo_pm None 0)
      = (None, demo_store None (Some demo_liq_high) None)"
    by (rule intrabar_veto_I [where conf = 76]) (simp add: demo_adj_liq_high)
  from a b c demo_run_coinapi_liq_high show ?thesis by blast
qed

end
